theory Spec2Isabelle
  imports Main "HOL-Library.Sublist"
begin

section \<open>Errors and formatting\<close>

text \<open>
  A Go \<open>error\<close> is a value with a message. \<open>Errorf\<close> is an error made by
  \<open>fmt.Errorf\<close> in this program (its message is the formatted string);
  \<open>Underlying\<close> is an error handed up unchanged from a library call (network, JSON
  decoding, file system); \<open>Panic\<close> is a run-time panic.
\<close>

datatype error = Errorf string | Underlying string | Panic string

fun ErrorText :: "error \<Rightarrow> string" where
  "ErrorText (Errorf m) = m"
| "ErrorText (Underlying m) = m"
| "ErrorText (Panic m) = m"

definition digit :: "nat \<Rightarrow> char" where
  "digit n = ''0123456789'' ! n"

fun utoa :: "nat \<Rightarrow> string" where
  "utoa n = (if n < 10 then [digit n] else utoa (n div 10) @ [digit (n mod 10)])"

declare utoa.simps [simp del]

text \<open>The verb \<open>%d\<close> of \<open>fmt\<close> on a Go \<open>int\<close>.\<close>

definition itoa :: "int \<Rightarrow> string" where
  "itoa i = (if i < 0 then ''-'' @ utoa (nat (- i)) else utoa (nat i))"

section \<open>Strings (package strings, package bytes)\<close>

definition HasSuffix :: "string \<Rightarrow> string \<Rightarrow> bool" where
  "HasSuffix s suf \<longleftrightarrow>
     length suf \<le> length s \<and> drop (length s - length suf) s = suf"

text \<open>
  \<open>bytes.Index\<close>: the index of the first occurrence of \<open>t\<close> in \<open>s\<close>, or \<open>-1\<close>.
\<close>

fun Index :: "string \<Rightarrow> string \<Rightarrow> int" where
  "Index [] t = (if t = [] then 0 else - 1)"
| "Index (c # s) t =
     (if take (length t) (c # s) = t then 0
      else (let r = Index s t in if r < 0 then - 1 else r + 1))"

definition Contains :: "string \<Rightarrow> string \<Rightarrow> bool" where
  "Contains s substr \<longleftrightarrow> 0 \<le> Index s substr"

text \<open>
  \<open>strings.ToLower\<close> on the ASCII letters; every other byte is left as it is. Go also
  lowers the letters outside ASCII, two of them to ASCII letters (U+0130 to \<open>i\<close>, U+212A
  to \<open>k\<close>), and replaces bytes that are not UTF-8. Neither \<open>i\<close> nor \<open>k\<close> occurs in
  \<open>.py\<close>, \<open>.tar.gz\<close> or \<open>.tgz\<close>, so for these suffixes the model and Go agree on every
  string; for \<open>.zip\<close> they agree on every string without U+0130.
\<close>

definition lower_char :: "char \<Rightarrow> char" where
  "lower_char c =
     (case map_of (zip ''ABCDEFGHIJKLMNOPQRSTUVWXYZ'' ''abcdefghijklmnopqrstuvwxyz'') c of
        Some l \<Rightarrow> l
      | None \<Rightarrow> c)"

definition ToLower :: "string \<Rightarrow> string" where
  "ToLower s = map lower_char s"

text \<open>
  \<open>strings.TrimSpace\<close> on the ASCII white space (tab, line feed, vertical tab, form
  feed, carriage return, space).
\<close>

definition isSpace :: "char \<Rightarrow> bool" where
  "isSpace c \<longleftrightarrow> c \<in> set [CHR 0x09, CHR 0x0A, CHR 0x0B, CHR 0x0C, CHR 0x0D, CHR '' '']"

definition TrimSpace :: "string \<Rightarrow> string" where
  "TrimSpace s = rev (dropWhile isSpace (rev (dropWhile isSpace s)))"

text \<open>
  \<open>strings.ReplaceAll\<close> with an \<open>old\<close> string of one byte, the only way this program
  calls it.
\<close>

definition ReplaceAll :: "string \<Rightarrow> char \<Rightarrow> string \<Rightarrow> string" where
  "ReplaceAll s old new = concat (map (\<lambda>c. if c = old then new else [c]) s)"

text \<open>\<open>strings.SplitN(s, sep, 2)\<close> with a separator of one byte.\<close>

definition SplitN2 :: "string \<Rightarrow> char \<Rightarrow> string list" where
  "SplitN2 s sep =
     (if sep \<in> set s then [takeWhile (\<lambda>c. c \<noteq> sep) s, tl (dropWhile (\<lambda>c. c \<noteq> sep) s)]
      else [s])"

text \<open>\<open>strings.Join\<close>.\<close>

fun Join :: "string list \<Rightarrow> string \<Rightarrow> string" where
  "Join [] sep = []"
| "Join [x] sep = x"
| "Join (x # y # ys) sep = x @ sep @ Join (y # ys) sep"

section \<open>The API client (cmd/api.go)\<close>

record APIClient =
  BaseURL :: string
  AuthToken :: string

record sandbox =
  ID :: int
  Name :: string
  Status :: string
  IPAddress :: string
  CreatedAt :: string
  UpdatedAt :: string
  TenantID :: string
  UserID :: int
  Description :: string

record User =
  ID_User :: int
  Email :: string
  FirstName :: string
  LastName :: string
  TenantID_User :: string

record AuthStatusResponse =
  Authenticated :: bool
  User :: User

record ProjectFile =
  Path :: string
  Name_ProjectFile :: string
  Content_ProjectFile :: string

text \<open>The response envelope \<open>{msg, data}\<close> and the \<open>data\<close> payloads decoded from it.\<close>

record 'd apiResp =
  Message :: string
  Data :: 'd

record list_data =
  Items :: "sandbox list"
  Total :: int

record exec_data =
  Output :: string
  Error :: string
  Sandbox :: string

subsection \<open>Requests, responses and the world outside the program\<close>

text \<open>
  The values this program hands to \<open>json.Marshal\<close> as request bodies are Go maps from
  strings to strings, and (for sandbox creation) a map from strings to strings or such
  maps. A Go map is an association list with one pair per key; \<open>m[k] = v\<close> is
  \<open>map_update\<close>. \<open>json.Marshal\<close> cannot fail on these values.
\<close>

fun map_update :: "'k \<Rightarrow> 'v \<Rightarrow> ('k \<times> 'v) list \<Rightarrow> ('k \<times> 'v) list" where
  "map_update k v [] = [(k, v)]"
| "map_update k v ((k', v') # m) =
     (if k' = k then (k, v) # m else (k', v') # map_update k v m)"

datatype any = String string | StringMap "(string \<times> string) list"

text \<open>
  What a file holds: bytes, or a zip archive written by \<open>archive/zip\<close>, kept as the
  list of its entries (name, compression method, uncompressed bytes).
\<close>

datatype method_zip = Store | Deflate

record zip_entry =
  Name_zip :: string
  Method_zip :: method_zip
  Content_zip :: string

datatype contents = Bytes string | ZipArchive "zip_entry list"

record form_file =
  FormName :: string
  FileName :: string
  FileData :: contents

text \<open>
  A request body: the value given to \<open>json.Marshal\<close> (a \<open>map[string]any\<close> or a
  \<open>map[string]string\<close>), or a multipart form with one file and its string fields.
\<close>

datatype body =
    MapAny "(string \<times> any) list"
  | MapString "(string \<times> string) list"
  | Multipart form_file "(string \<times> string) list"

record http_request =
  Method :: string
  URL :: string
  Header :: "(string \<times> string) list"
  Body :: "body option"

text \<open>
  A response: the status code, the header (canonical key to its values) and the text that
  reading the body to its end delivers.
\<close>

record http_response =
  StatusCode :: int
  Header_resp :: "(string \<times> string list) list"
  Body_resp :: string

definition Header_Get :: "(string \<times> string list) list \<Rightarrow> string \<Rightarrow> string" where
  "Header_Get h key = (case map_of h key of None \<Rightarrow> [] | Some [] \<Rightarrow> [] | Some (v # _) \<Rightarrow> v)"

text \<open>
  The file tree that \<open>os.Lstat\<close>, reading a directory and \<open>os.Open\<close> show below a
  path. \<open>File c\<close> is an entry that is not a directory, \<open>c\<close> being what opening it and
  copying it to its end delivers (its bytes, or the error of either step); \<open>Dir cs\<close> is
  a directory with its entries in the order \<open>filepath.Walk\<close> reads them (sorted by
  name); \<open>UnreadableDir\<close> is a directory whose names cannot be read; \<open>NoStat\<close> is a
  path on which \<open>os.Lstat\<close> fails.
\<close>

datatype node =
    File "error + string"
  | Dir "(string \<times> node) list"
  | UnreadableDir error
  | NoStat error

text \<open>
  Everything the program reads from outside itself: the path separator of the host, the HTTP transport
  (\<open>http.NewRequest\<close>, \<open>HTTPClient.Do\<close> with its 30 second timeout), the JSON decoder
  of each payload type, the file system, the terminal and what saving the configuration
  file returns.
\<close>

record env =
  Separator :: char
  NewRequest :: "string \<Rightarrow> string \<Rightarrow> error option"
  Do :: "http_request \<Rightarrow> error + http_response"
  FormDataContentType :: string
  Decode_AuthStatusResponse :: "string \<Rightarrow> error + AuthStatusResponse"
  Decode_list :: "string \<Rightarrow> error + list_data apiResp"
  Decode_sandbox :: "string \<Rightarrow> error + sandbox apiResp"
  Decode_exec :: "string \<Rightarrow> error + exec_data apiResp"
  Decode_files :: "string \<Rightarrow> error + (ProjectFile list) apiResp"
  Stat :: "string \<Rightarrow> error + bool"
  Lstat :: "string \<Rightarrow> node"
  Open :: "string \<Rightarrow> error + (error + string)"
  CreateTemp :: "error + string"
  Create :: "string \<Rightarrow> error option"
  Copy_err :: "string \<Rightarrow> (nat \<times> error) option"
  ReadPassword :: "error + string"
  ReadString :: "error + string"
  Stdin_Stat :: "bool option"
  Stdin_ReadAll :: "error + string"
  WriteConfig :: "string \<Rightarrow> string \<Rightarrow> error option"

text \<open>
  What the program changes: the configuration held by \<open>viper\<close> (keys \<open>auth_token\<close>
  and \<open>user_email\<close>), the requests handed to \<open>HTTPClient.Do\<close> so far, in order, and the
  files this run has written and not removed.
\<close>

record world =
  auth_token :: string
  user_email :: string
  Sent :: "http_request list"
  Files :: "(string \<times> contents) list"

subsection \<open>makeRequest and the operations\<close>

definition makeRequest ::
  "env \<Rightarrow> APIClient \<Rightarrow> string \<Rightarrow> string \<Rightarrow> body option \<Rightarrow> world
     \<Rightarrow> (error + http_response) \<times> world" where
  "makeRequest e c method endpoint body w =
     (case NewRequest e method (BaseURL c @ endpoint) of
        Some err \<Rightarrow> (Inl err, w)
      | None \<Rightarrow>
          (let req = \<lparr>Method = method, URL = BaseURL c @ endpoint,
                       Header = (''Content-Type'', ''application/json'') #
                         (if AuthToken c \<noteq> [] then [(''Authorization'', ''Bearer '' @ AuthToken c)]
                          else []),
                       Body = body\<rparr>
           in (Do e req, w\<lparr>Sent := Sent w @ [req]\<rparr>)))"

definition GetAuthStatus ::
  "env \<Rightarrow> APIClient \<Rightarrow> world \<Rightarrow> (error + AuthStatusResponse) \<times> world" where
  "GetAuthStatus e c w =
     (case makeRequest e c ''GET'' ''/auth/status'' None w of
        (Inl err, w') \<Rightarrow> (Inl err, w')
      | (Inr resp, w') \<Rightarrow>
          if StatusCode resp = 401 then
            (Inl (Errorf (''authentication failed: '' @ Body_resp resp)), w')
          else if StatusCode resp \<noteq> 200 then
            (Inl (Errorf (''failed to get auth status: '' @ itoa (StatusCode resp) @ '' - ''
                          @ Body_resp resp)), w')
          else (case Decode_AuthStatusResponse e (Body_resp resp) of
                  Inl err \<Rightarrow> (Inl err, w')
                | Inr authStatus \<Rightarrow> (Inr authStatus, w')))"

definition ListSandboxes ::
  "env \<Rightarrow> APIClient \<Rightarrow> world \<Rightarrow> (error + sandbox list) \<times> world" where
  "ListSandboxes e c w =
     (case makeRequest e c ''GET'' ''/sandbox'' None w of
        (Inl err, w') \<Rightarrow> (Inl err, w')
      | (Inr resp, w') \<Rightarrow>
          if StatusCode resp \<noteq> 200 then
            (Inl (Errorf (''failed to list sandboxes: '' @ Body_resp resp)), w')
          else (case Decode_list e (Body_resp resp) of
                  Inl err \<Rightarrow> (Inl err, w')
                | Inr apiResp \<Rightarrow> (Inr (Items (Data apiResp)), w')))"

definition createReq ::
  "string \<Rightarrow> string \<Rightarrow> (string \<times> string) list \<Rightarrow> (string \<times> any) list" where
  "createReq name port secrets =
     (let r0 = [];
          r1 = (if name \<noteq> [] then map_update ''name'' (String name) r0 else r0);
          r2 = (if port \<noteq> [] then map_update ''port'' (String port) r1 else r1);
          r3 = (if 0 < length secrets then map_update ''secrets'' (StringMap secrets) r2 else r2)
      in r3)"

definition CreateSandbox ::
  "env \<Rightarrow> APIClient \<Rightarrow> string \<Rightarrow> string \<Rightarrow> (string \<times> string) list \<Rightarrow> world
     \<Rightarrow> (error + sandbox) \<times> world" where
  "CreateSandbox e c name port secrets w =
     (case makeRequest e c ''POST'' ''/sandbox'' (Some (MapAny (createReq name port secrets))) w of
        (Inl err, w') \<Rightarrow> (Inl err, w')
      | (Inr resp, w') \<Rightarrow>
          if StatusCode resp \<noteq> 200 \<and> StatusCode resp \<noteq> 201 then
            (Inl (Errorf (''failed to create sandbox: '' @ Body_resp resp)), w')
          else (case Decode_sandbox e (Body_resp resp) of
                  Inl err \<Rightarrow> (Inl err, w')
                | Inr apiResp \<Rightarrow> (Inr (Data apiResp), w')))"

text \<open>
  \<open>DeleteSandbox\<close>, \<open>StartSandbox\<close>, \<open>StopSandbox\<close> and \<open>UpdateFile\<close> return only an
  error: \<open>None\<close> is Go's \<open>nil\<close>.
\<close>

definition DeleteSandbox :: "env \<Rightarrow> APIClient \<Rightarrow> string \<Rightarrow> world \<Rightarrow> error option \<times> world" where
  "DeleteSandbox e c name w =
     (case makeRequest e c ''DELETE'' (''/sandbox/'' @ name) None w of
        (Inl err, w') \<Rightarrow> (Some err, w')
      | (Inr resp, w') \<Rightarrow>
          if StatusCode resp \<noteq> 200 then
            (Some (Errorf (''failed to delete sandbox: '' @ Body_resp resp)), w')
          else (None, w'))"

definition StartSandbox :: "env \<Rightarrow> APIClient \<Rightarrow> string \<Rightarrow> world \<Rightarrow> error option \<times> world" where
  "StartSandbox e c name w =
     (case makeRequest e c ''PUT'' (''/sandbox/'' @ name @ ''/start'') None w of
        (Inl err, w') \<Rightarrow> (Some err, w')
      | (Inr resp, w') \<Rightarrow>
          if StatusCode resp \<noteq> 200 then
            (Some (Errorf (''failed to start sandbox: '' @ Body_resp resp)), w')
          else (None, w'))"

definition StopSandbox :: "env \<Rightarrow> APIClient \<Rightarrow> string \<Rightarrow> world \<Rightarrow> error option \<times> world" where
  "StopSandbox e c name w =
     (case makeRequest e c ''PUT'' (''/sandbox/'' @ name @ ''/stop'') None w of
        (Inl err, w') \<Rightarrow> (Some err, w')
      | (Inr resp, w') \<Rightarrow>
          if StatusCode resp \<noteq> 200 then
            (Some (Errorf (''failed to stop sandbox: '' @ Body_resp resp)), w')
          else (None, w'))"

definition RunCommand ::
  "env \<Rightarrow> APIClient \<Rightarrow> string \<Rightarrow> string \<Rightarrow> world \<Rightarrow> (error + string) \<times> world" where
  "RunCommand e c sandboxName command w =
     (let r0 = [(''command'', command)];
          runReq = (if sandboxName \<noteq> [] then map_update ''id'' sandboxName r0 else r0)
      in case makeRequest e c ''POST'' ''/sandbox/exec'' (Some (MapString runReq)) w of
        (Inl err, w') \<Rightarrow> (Inl err, w')
      | (Inr resp, w') \<Rightarrow>
          if StatusCode resp \<noteq> 200 then
            (Inl (Errorf (''failed to run command: '' @ Body_resp resp)), w')
          else (case Decode_exec e (Body_resp resp) of
                  Inl err \<Rightarrow> (Inl err, w')
                | Inr apiResp \<Rightarrow>
                    if Error (Data apiResp) \<noteq> [] then
                      (Inl (Errorf (''command failed: '' @ Error (Data apiResp))), w')
                    else (Inr (Output (Data apiResp)), w')))"

text \<open>
  The file name in a \<open>Content-Disposition\<close> header, as \<open>DownloadZip\<close> extracts it.
  \<open>CHR 0x22\<close> is the double quote: the token looked for is \<open>filename=\<close> followed by
  a double quote, ten bytes long.
\<close>

definition DownloadZip_filename :: "string \<Rightarrow> string" where
  "DownloadZip_filename cd =
     (if cd \<noteq> [] then
        (let idx = Index cd (''filename='' @ [CHR 0x22]) in
         if idx \<noteq> - 1 then
           (let start = idx + 10;
                end' = Index (drop (nat start) cd) [CHR 0x22]
            in if end' \<noteq> - 1 then take (nat end') (drop (nat start) cd)
               else ''download.zip'')
         else ''download.zip'')
      else ''download.zip'')"

text \<open>\<open>DownloadZip\<close> returns the body stream (its text) and the file name.\<close>

definition DownloadZip ::
  "env \<Rightarrow> APIClient \<Rightarrow> string \<Rightarrow> string \<Rightarrow> world
     \<Rightarrow> (error + string \<times> string) \<times> world" where
  "DownloadZip e c sandboxID dir w =
     (let endpoint0 = ''/sandbox/'' @ sandboxID @ ''/zip'';
          endpoint = (if dir \<noteq> [] then endpoint0 @ ''?dir='' @ dir else endpoint0)
      in case makeRequest e c ''GET'' endpoint None w of
        (Inl err, w') \<Rightarrow> (Inl err, w')
      | (Inr resp, w') \<Rightarrow>
          if StatusCode resp \<noteq> 200 then
            (Inl (Errorf (''failed to download zip: '' @ Body_resp resp)), w')
          else (Inr (Body_resp resp,
                     DownloadZip_filename (Header_Get (Header_resp resp) ''Content-Disposition'')),
                w'))"

definition ListFiles ::
  "env \<Rightarrow> APIClient \<Rightarrow> string \<Rightarrow> string \<Rightarrow> int \<Rightarrow> world
     \<Rightarrow> (error + ProjectFile list) \<times> world" where
  "ListFiles e c sandboxID dir maxDepth w =
     (let endpoint0 = ''/sandbox/'' @ sandboxID @ ''/files'';
          params0 = [];
          params1 = (if dir \<noteq> [] then params0 @ [''dir='' @ dir] else params0);
          params = (if 0 < maxDepth then params1 @ [''max_depth='' @ itoa maxDepth] else params1);
          endpoint = (if 0 < length params then endpoint0 @ ''?'' @ Join params ''&''
                      else endpoint0)
      in case makeRequest e c ''GET'' endpoint None w of
        (Inl err, w') \<Rightarrow> (Inl err, w')
      | (Inr resp, w') \<Rightarrow>
          if StatusCode resp \<noteq> 200 then
            (Inl (Errorf (''failed to list files: '' @ Body_resp resp)), w')
          else (case Decode_files e (Body_resp resp) of
                  Inl err \<Rightarrow> (Inl err, w')
                | Inr apiResp \<Rightarrow> (Inr (Data apiResp), w')))"

definition UpdateFile ::
  "env \<Rightarrow> APIClient \<Rightarrow> string \<Rightarrow> string \<Rightarrow> string \<Rightarrow> string \<Rightarrow> string \<Rightarrow> world
     \<Rightarrow> error option \<times> world" where
  "UpdateFile e c sandboxID path content fileType writeMode w =
     (let r0 = [(''path'', path), (''content'', content), (''type'', fileType)];
          updateReq = (if writeMode \<noteq> [] then map_update ''write_mode'' writeMode r0 else r0)
      in case makeRequest e c ''PUT'' (''/sandbox/'' @ sandboxID @ ''/files'')
                (Some (MapString updateReq)) w of
        (Inl err, w') \<Rightarrow> (Some err, w')
      | (Inr resp, w') \<Rightarrow>
          if StatusCode resp \<noteq> 200 then
            (Some (Errorf (''failed to update file: '' @ Body_resp resp)), w')
          else (None, w'))"

text \<open>
  \<open>filepath.Base\<close> (without the volume names of Windows paths). \<open>/\<close> separates
  path elements on every host, next to the host's own separator.
\<close>

definition IsPathSeparator :: "env \<Rightarrow> char \<Rightarrow> bool" where
  "IsPathSeparator e c \<longleftrightarrow> c = Separator e \<or> c = CHR ''/''"

definition Base :: "env \<Rightarrow> string \<Rightarrow> string" where
  "Base e path =
     (if path = [] then ''.''
      else (let stripped = rev (dropWhile (IsPathSeparator e) (rev path));
                elem = rev (takeWhile (\<lambda>c. \<not> IsPathSeparator e c) (rev stripped))
            in if elem = [] then [Separator e] else elem))"

text \<open>
  \<open>os.Open\<close> followed by reading to the end: a file this run has written is read back
  as written, any other file is what the file system holds. The result is the error of
  opening, or else the error of reading or the contents.
\<close>

definition os_Open :: "env \<Rightarrow> world \<Rightarrow> string \<Rightarrow> error + (error + contents)" where
  "os_Open e w path =
     (case map_of (Files w) path of
        Some c \<Rightarrow> Inr (Inr c)
      | None \<Rightarrow>
          (case Open e path of
             Inl err \<Rightarrow> Inl err
           | Inr (Inl err) \<Rightarrow> Inr (Inl err)
           | Inr (Inr b) \<Rightarrow> Inr (Inr (Bytes b))))"

text \<open>
  \<open>UploadArchive\<close> builds the multipart form in memory (writing to a
  \<open>bytes.Buffer\<close> does not fail) and sends it with its own request, not through
  \<open>makeRequest\<close>.
\<close>

definition UploadArchive ::
  "env \<Rightarrow> APIClient \<Rightarrow> string \<Rightarrow> string \<Rightarrow> string \<Rightarrow> string \<Rightarrow> world
     \<Rightarrow> error option \<times> world" where
  "UploadArchive e c sandboxID archivePath targetPath format0 w =
     (let format = (if format0 = [] then ''zip'' else format0)
      in case os_Open e w archivePath of
        Inl err \<Rightarrow> (Some (Errorf (''failed to open archive: '' @ ErrorText err)), w)
      | Inr (Inl err) \<Rightarrow> (Some (Errorf (''failed to write file to form: '' @ ErrorText err)), w)
      | Inr (Inr data) \<Rightarrow>
          (let form = Multipart
                 \<lparr>FormName = ''archive'', FileName = Base e archivePath, FileData = data\<rparr>
                 [(''path'', targetPath), (''format'', format)];
               url = BaseURL c @ ''/sandbox/'' @ sandboxID @ ''/upload''
           in case NewRequest e ''POST'' url of
             Some err \<Rightarrow> (Some err, w)
           | None \<Rightarrow>
               (let req = \<lparr>Method = ''POST'', URL = url,
                            Header = (''Content-Type'', FormDataContentType e) #
                              (if AuthToken c \<noteq> []
                               then [(''Authorization'', ''Bearer '' @ AuthToken c)] else []),
                            Body = Some form\<rparr>;
                    w' = w\<lparr>Sent := Sent w @ [req]\<rparr>
                in case Do e req of
                  Inl err \<Rightarrow> (Some err, w')
                | Inr resp \<Rightarrow>
                    if StatusCode resp \<noteq> 200 then
                      (Some (Errorf (''failed to upload archive: '' @ Body_resp resp)), w')
                    else (None, w'))))"

definition RunPython ::
  "env \<Rightarrow> APIClient \<Rightarrow> string \<Rightarrow> string \<Rightarrow> string \<Rightarrow> world
     \<Rightarrow> (error + string) \<times> world" where
  "RunPython e c sandboxName code entrypoint w =
     (let r0 = [(''code'', code)];
          r1 = (if sandboxName \<noteq> [] then map_update ''id'' sandboxName r0 else r0);
          runReq = (if entrypoint \<noteq> [] then map_update ''entrypoint'' entrypoint r1 else r1)
      in case makeRequest e c ''POST'' ''/sandbox/run'' (Some (MapString runReq)) w of
        (Inl err, w') \<Rightarrow> (Inl err, w')
      | (Inr resp, w') \<Rightarrow>
          if StatusCode resp \<noteq> 200 then
            (Inl (Errorf (''failed to run python: '' @ Body_resp resp)), w')
          else (case Decode_exec e (Body_resp resp) of
                  Inl err \<Rightarrow> (Inl err, w')
                | Inr apiResp \<Rightarrow>
                    if Error (Data apiResp) \<noteq> [] then
                      (Inl (Errorf (''python execution failed: '' @ Error (Data apiResp))), w')
                    else (Inr (Output (Data apiResp)), w')))"

section \<open>Configuration (cmd/config.go)\<close>

definition defaultAPIEndpoint :: string where
  "defaultAPIEndpoint = ''https://api.everywhere.dev/api/v1''"

definition NewAPIClient :: "string \<Rightarrow> string \<Rightarrow> APIClient" where
  "NewAPIClient baseURL authToken = \<lparr>BaseURL = baseURL, AuthToken = authToken\<rparr>"

definition GetAPIEndpoint :: string where
  "GetAPIEndpoint = defaultAPIEndpoint"

definition GetAuthToken :: "world \<Rightarrow> string" where
  "GetAuthToken w = auth_token w"

definition GetUserEmail :: "world \<Rightarrow> string" where
  "GetUserEmail w = user_email w"

text \<open>
  \<open>saveConfig\<close> writes the configuration file; whether that fails is for the file
  system to say, given the values written.
\<close>

definition saveConfig :: "env \<Rightarrow> world \<Rightarrow> error option" where
  "saveConfig e w = WriteConfig e (auth_token w) (user_email w)"

definition SetAuthToken :: "env \<Rightarrow> string \<Rightarrow> world \<Rightarrow> error option \<times> world" where
  "SetAuthToken e token w = (let w' = w\<lparr>auth_token := token\<rparr> in (saveConfig e w', w'))"

definition SetUserEmail :: "env \<Rightarrow> string \<Rightarrow> world \<Rightarrow> error option \<times> world" where
  "SetUserEmail e email w = (let w' = w\<lparr>user_email := email\<rparr> in (saveConfig e w', w'))"

definition ClearAuth :: "env \<Rightarrow> world \<Rightarrow> error option \<times> world" where
  "ClearAuth e w = (let w' = w\<lparr>auth_token := [], user_email := []\<rparr> in (saveConfig e w', w'))"

definition isAuthenticated :: "world \<Rightarrow> bool" where
  "isAuthenticated w \<longleftrightarrow> auth_token w \<noteq> []"

text \<open>\<open>CHR 0x27\<close> is the single quote of the message.\<close>

definition requireAuth :: "world \<Rightarrow> error option" where
  "requireAuth w =
     (if \<not> isAuthenticated w then
        Some (Errorf (''not authenticated. Please run '' @ [CHR 0x27] @ ''everywhere login''
                      @ [CHR 0x27] @ '' first''))
      else None)"

section \<open>The archive builder (cmd/commands.go)\<close>

subsection \<open>The zip writer of archive/zip\<close>

text \<open>
  The writer is the list of the entries created so far; data is written to the last one.
  \<open>CreateHeader\<close> refuses a name longer than 65535 bytes, and makes an entry whose name
  ends in \<open>/\<close> a directory entry: stored, with no data, refusing any write. Writing to
  the temporary file itself is taken to succeed.
\<close>

definition CreateHeader :: "zip_entry list \<Rightarrow> string \<Rightarrow> method_zip \<Rightarrow> error option \<times> zip_entry list" where
  "CreateHeader zw name method =
     (if 65535 < length name then (Some (Underlying ''zip: FileHeader.Name too long''), zw)
      else (None, zw @ [\<lparr>Name_zip = name,
                           Method_zip = (if HasSuffix name ''/'' then Store else method),
                           Content_zip = []\<rparr>]))"

text \<open>
  \<open>io.Copy\<close> from an opened file into the entry created last. \<open>src\<close> is what reading
  the file delivers.
\<close>

definition Copy :: "zip_entry list \<Rightarrow> error + string \<Rightarrow> error option \<times> zip_entry list" where
  "Copy zw src =
     (case src of
        Inl err \<Rightarrow> (Some err, zw)
      | Inr b \<Rightarrow>
          if b = [] \<or> zw = [] then (None, zw)
          else (let h = last zw in
                if HasSuffix (Name_zip h) ''/'' then (Some (Underlying ''zip: write to directory''), zw)
                else (None, butlast zw @ [h\<lparr>Content_zip := Content_zip h @ b\<rparr>])))"

subsection \<open>filepath.Walk\<close>

text \<open>
  \<open>Walk\<close> visits a tree in the order of \<open>filepath.Walk\<close>: the node itself, then, for a
  directory that could be read, its entries in order. The callback gets the names that
  lead from the root to the node (\<open>filepath.Walk\<close> gives it the path joined from the root
  and these names), the node and the error of \<open>os.Lstat\<close> or of reading the directory;
  when it returns an error, the walk stops with that error. The callback of this program
  never returns \<open>SkipDir\<close> or \<open>SkipAll\<close>, which are left out.
\<close>

fun Walk ::
    "(string list \<Rightarrow> node \<Rightarrow> error option \<Rightarrow> 's \<Rightarrow> error option \<times> 's)
       \<Rightarrow> string list \<Rightarrow> node \<Rightarrow> 's \<Rightarrow> error option \<times> 's"
  and Walk_names ::
    "(string list \<Rightarrow> node \<Rightarrow> error option \<Rightarrow> 's \<Rightarrow> error option \<times> 's)
       \<Rightarrow> string list \<Rightarrow> (string \<times> node) list \<Rightarrow> 's \<Rightarrow> error option \<times> 's"
where
  "Walk fn p (File c) st = fn p (File c) None st"
| "Walk fn p (NoStat err) st = fn p (NoStat err) (Some err) st"
| "Walk fn p (UnreadableDir err) st = fn p (UnreadableDir err) (Some err) st"
| "Walk fn p (Dir cs) st =
     (case fn p (Dir cs) None st of
        (Some err, st') \<Rightarrow> (Some err, st')
      | (None, st') \<Rightarrow> Walk_names fn p cs st')"
| "Walk_names fn p [] st = (None, st)"
| "Walk_names fn p ((name, n) # cs) st =
     (case Walk fn (p @ [name]) n st of
        (Some err, st') \<Rightarrow> (Some err, st')
      | (None, st') \<Rightarrow> Walk_names fn p cs st')"

subsection \<open>createZipFromDir and createZipFromFile\<close>

text \<open>
  \<open>filepath.Rel(dir, path)\<close> for the path that \<open>filepath.Walk\<close> has joined from \<open>dir\<close>
  and the names \<open>p\<close>: the names joined by the host's separator, and \<open>.\<close> for the root
  itself. It does not fail on such a path.
\<close>

definition Rel :: "env \<Rightarrow> string list \<Rightarrow> string" where
  "Rel e p = (if p = [] then ''.'' else Join p [Separator e])"

fun IsDir :: "node \<Rightarrow> bool" where
  "IsDir (Dir cs) = True"
| "IsDir (UnreadableDir err) = True"
| "IsDir (File c) = False"
| "IsDir (NoStat err) = False"

text \<open>
  The callback of \<open>createZipFromDir\<close>. \<open>zip.FileInfoHeader\<close> does not fail and gives a
  header with method \<open>Store\<close>, which the callback keeps for a directory.
\<close>

definition walkFn ::
  "env \<Rightarrow> string list \<Rightarrow> node \<Rightarrow> error option \<Rightarrow> zip_entry list
     \<Rightarrow> error option \<times> zip_entry list" where
  "walkFn e p info err zw =
     (case err of
        Some er \<Rightarrow> (Some er, zw)
      | None \<Rightarrow>
          (let rel = Rel e p in
           if rel = ''.'' then (None, zw)
           else
             (let zipName = ReplaceAll rel (Separator e) ''/'' in
              if IsDir info then
                CreateHeader zw (if \<not> HasSuffix zipName ''/'' then zipName @ ''/'' else zipName) Store
              else
                (case CreateHeader zw zipName Deflate of
                   (Some er, zw') \<Rightarrow> (Some er, zw')
                 | (None, zw') \<Rightarrow>
                     Copy zw' (case info of File c \<Rightarrow> c | _ \<Rightarrow> Inr [])))))"

text \<open>
  Both builders return the name of the temporary file, which then holds the archive. The
  file is closed, and so holds the entries written so far, also when the builder fails
  after creating it.
\<close>

definition createZipFromDir :: "env \<Rightarrow> string \<Rightarrow> world \<Rightarrow> (error + string) \<times> world" where
  "createZipFromDir e dir w =
     (case CreateTemp e of
        Inl err \<Rightarrow> (Inl (Errorf (''create temp zip: '' @ ErrorText err)), w)
      | Inr f \<Rightarrow>
          (case Walk (walkFn e) [] (Lstat e dir) [] of
             (Some err, zw) \<Rightarrow> (Inl err, w\<lparr>Files := map_update f (ZipArchive zw) (Files w)\<rparr>)
           | (None, zw) \<Rightarrow> (Inr f, w\<lparr>Files := map_update f (ZipArchive zw) (Files w)\<rparr>)))"

definition createZipFromFile :: "env \<Rightarrow> string \<Rightarrow> world \<Rightarrow> (error + string) \<times> world" where
  "createZipFromFile e filePath w =
     (case Stat e filePath of
        Inl err \<Rightarrow> (Inl (Errorf (''stat file: '' @ ErrorText err)), w)
      | Inr info \<Rightarrow>
          (case CreateTemp e of
             Inl err \<Rightarrow> (Inl (Errorf (''create temp zip: '' @ ErrorText err)), w)
           | Inr f \<Rightarrow>
               (case CreateHeader [] (Base e filePath) Deflate of
                  (Some err, zw) \<Rightarrow> (Inl err, w\<lparr>Files := map_update f (ZipArchive zw) (Files w)\<rparr>)
                | (None, zw) \<Rightarrow>
                    (case Open e filePath of
                       Inl err \<Rightarrow> (Inl err, w\<lparr>Files := map_update f (ZipArchive zw) (Files w)\<rparr>)
                     | Inr src \<Rightarrow>
                         (case Copy zw src of
                            (Some err, zw') \<Rightarrow>
                              (Inl err, w\<lparr>Files := map_update f (ZipArchive zw') (Files w)\<rparr>)
                          | (None, zw') \<Rightarrow>
                              (Inr f, w\<lparr>Files := map_update f (ZipArchive zw') (Files w)\<rparr>))))))"

section \<open>The commands (cmd/commands.go)\<close>

text \<open>
  Each command is its \<open>RunE\<close> function, on arguments that \<open>cobra\<close> has already
  counted, after \<open>initConfig\<close> has loaded the configuration into the world. What a
  command prints to standard output is left out: it changes neither the error returned
  nor a request.
\<close>

definition newLoginCmd :: "env \<Rightarrow> string list \<Rightarrow> string \<Rightarrow> world \<Rightarrow> error option \<times> world" where
  "newLoginCmd e args token w =
     (case (if 1 \<le> length args \<and> TrimSpace (args ! 0) \<noteq> [] then Inr (TrimSpace (args ! 0))
            else if token \<noteq> [] then Inr token
            else (case ReadPassword e of
                    Inl err \<Rightarrow> Inl err
                  | Inr tokBytes \<Rightarrow>
                      if TrimSpace tokBytes = [] then Inl (Errorf ''token cannot be empty'')
                      else Inr (TrimSpace tokBytes))) of
        Inl err \<Rightarrow> (Some err, w)
      | Inr tokenVal \<Rightarrow>
          (case GetAuthStatus e (NewAPIClient GetAPIEndpoint tokenVal) w of
             (Inl err, w1) \<Rightarrow>
               (Some (Errorf (''token authentication failed: '' @ ErrorText err)), w1)
           | (Inr authStatus, w1) \<Rightarrow>
               if \<not> Authenticated authStatus then (Some (Errorf ''invalid or expired token''), w1)
               else (case SetAuthToken e tokenVal w1 of
                       (Some err, w2) \<Rightarrow> (Some err, w2)
                     | (None, w2) \<Rightarrow> SetUserEmail e (Email (User authStatus)) w2)))"

definition newLogoutCmd :: "env \<Rightarrow> world \<Rightarrow> error option \<times> world" where
  "newLogoutCmd e w = ClearAuth e w"

definition newSandboxListCmd :: "env \<Rightarrow> world \<Rightarrow> error option \<times> world" where
  "newSandboxListCmd e w =
     (case requireAuth w of
        Some err \<Rightarrow> (Some err, w)
      | None \<Rightarrow>
          (case ListSandboxes e (NewAPIClient GetAPIEndpoint (GetAuthToken w)) w of
             (Inl err, w') \<Rightarrow> (Some err, w')
           | (Inr sandboxes, w') \<Rightarrow> (None, w')))"

text \<open>The loop of \<open>sandboxes create\<close> over the \<open>--env\<close> pairs.\<close>

fun parse_envPairs ::
  "string list \<Rightarrow> (string \<times> string) list \<Rightarrow> error + (string \<times> string) list" where
  "parse_envPairs [] secrets = Inr secrets"
| "parse_envPairs (kv # rest) secrets =
     (let parts = SplitN2 kv (CHR ''='') in
      if length parts \<noteq> 2 then
        Inl (Errorf (''invalid env '' @ [CHR 0x27] @ kv @ [CHR 0x27] @ '' (expected KEY=VALUE)''))
      else if TrimSpace (parts ! 0) = [] then
        Inl (Errorf (''empty env key in '' @ [CHR 0x27] @ kv @ [CHR 0x27]))
      else parse_envPairs rest (map_update (TrimSpace (parts ! 0)) (TrimSpace (parts ! 1)) secrets))"

definition newSandboxCreateCmd ::
  "env \<Rightarrow> string \<Rightarrow> string \<Rightarrow> string list \<Rightarrow> world \<Rightarrow> error option \<times> world" where
  "newSandboxCreateCmd e name port envPairs w =
     (case requireAuth w of
        Some err \<Rightarrow> (Some err, w)
      | None \<Rightarrow>
          (case parse_envPairs envPairs [] of
             Inl err \<Rightarrow> (Some err, w)
           | Inr secrets \<Rightarrow>
               (let secretsParam = (if 0 < length secrets then secrets else []) in
                case CreateSandbox e (NewAPIClient GetAPIEndpoint (GetAuthToken w))
                       name port secretsParam w of
                  (Inl err, w') \<Rightarrow> (Some err, w')
                | (Inr sb, w') \<Rightarrow> (None, w'))))"

definition newSandboxDeleteCmd :: "env \<Rightarrow> string \<Rightarrow> bool \<Rightarrow> world \<Rightarrow> error option \<times> world" where
  "newSandboxDeleteCmd e name force w =
     (case requireAuth w of
        Some err \<Rightarrow> (Some err, w)
      | None \<Rightarrow>
          (case (if \<not> force then
                   (case ReadString e of
                      Inl err \<Rightarrow> Inl (Some err)
                    | Inr resp \<Rightarrow>
                        if ToLower (TrimSpace resp) = ''y'' \<or> ToLower (TrimSpace resp) = ''yes''
                        then Inr () else Inl None)
                 else Inr ()) of
             Inl r \<Rightarrow> (r, w)
           | Inr _ \<Rightarrow> DeleteSandbox e (NewAPIClient GetAPIEndpoint (GetAuthToken w)) name w))"

definition newSandboxStartCmd :: "env \<Rightarrow> string \<Rightarrow> world \<Rightarrow> error option \<times> world" where
  "newSandboxStartCmd e name w =
     (case requireAuth w of
        Some err \<Rightarrow> (Some err, w)
      | None \<Rightarrow> StartSandbox e (NewAPIClient GetAPIEndpoint (GetAuthToken w)) name w)"

definition newSandboxStopCmd :: "env \<Rightarrow> string \<Rightarrow> world \<Rightarrow> error option \<times> world" where
  "newSandboxStopCmd e name w =
     (case requireAuth w of
        Some err \<Rightarrow> (Some err, w)
      | None \<Rightarrow> StopSandbox e (NewAPIClient GetAPIEndpoint (GetAuthToken w)) name w)"

definition newFilesListCmd :: "env \<Rightarrow> string \<Rightarrow> world \<Rightarrow> error option \<times> world" where
  "newFilesListCmd e sandbox w =
     (case requireAuth w of
        Some err \<Rightarrow> (Some err, w)
      | None \<Rightarrow>
          (case ListFiles e (NewAPIClient GetAPIEndpoint (GetAuthToken w)) sandbox [] 4 w of
             (Inl err, w') \<Rightarrow> (Some err, w')
           | (Inr files, w') \<Rightarrow> (None, w')))"

text \<open>
  \<open>files download\<close> creates the output file and copies the body into it; when the copy
  fails after \<open>n\<close> bytes, the file keeps those.
\<close>

definition newFilesDownloadCmd :: "env \<Rightarrow> string \<Rightarrow> string \<Rightarrow> world \<Rightarrow> error option \<times> world" where
  "newFilesDownloadCmd e sandbox output0 w =
     (case requireAuth w of
        Some err \<Rightarrow> (Some err, w)
      | None \<Rightarrow>
          (case DownloadZip e (NewAPIClient GetAPIEndpoint (GetAuthToken w)) sandbox [] w of
             (Inl err, w') \<Rightarrow> (Some err, w')
           | (Inr (reader, filename), w') \<Rightarrow>
               (let output = (if output0 = [] then filename else output0) in
                case Create e output of
                  Some err \<Rightarrow>
                    (Some (Errorf (''failed to create output file: '' @ ErrorText err)), w')
                | None \<Rightarrow>
                    (case Copy_err e output of
                       Some (n, err) \<Rightarrow>
                         (Some (Errorf (''failed to write file: '' @ ErrorText err)),
                          w'\<lparr>Files := map_update output (Bytes (take n reader)) (Files w')\<rparr>)
                     | None \<Rightarrow>
                         (None, w'\<lparr>Files := map_update output (Bytes reader) (Files w')\<rparr>)))))"

definition ReadFile :: "env \<Rightarrow> string \<Rightarrow> error + string" where
  "ReadFile e name = (case Open e name of Inl err \<Rightarrow> Inl err | Inr r \<Rightarrow> r)"

text \<open>
  \<open>files update\<close> ignores the error of \<open>os.Stdin.Stat\<close> and then reads the mode:
  \<open>Stdin_Stat\<close> is \<open>None\<close> when that call fails, and the command panics.
\<close>

definition newFilesUpdateCmd ::
  "env \<Rightarrow> string \<Rightarrow> string \<Rightarrow> string \<Rightarrow> bool \<Rightarrow> world \<Rightarrow> error option \<times> world" where
  "newFilesUpdateCmd e sandbox path localFile appendMode w =
     (case requireAuth w of
        Some err \<Rightarrow> (Some err, w)
      | None \<Rightarrow>
          (case (if localFile \<noteq> [] then
                   (case ReadFile e localFile of
                      Inl err \<Rightarrow> Inl (Errorf (''failed to read local file: '' @ ErrorText err))
                    | Inr data \<Rightarrow> Inr data)
                 else
                   (case Stdin_Stat e of
                      None \<Rightarrow> Inl (Panic ''invalid memory address or nil pointer dereference'')
                    | Some True \<Rightarrow>
                        Inl (Errorf ''no input provided. Use --file or pipe content via stdin'')
                    | Some False \<Rightarrow>
                        (case Stdin_ReadAll e of
                           Inl err \<Rightarrow> Inl (Errorf (''failed to read from stdin: '' @ ErrorText err))
                         | Inr data \<Rightarrow> Inr data))) of
             Inl err \<Rightarrow> (Some err, w)
           | Inr content \<Rightarrow>
               UpdateFile e (NewAPIClient GetAPIEndpoint (GetAuthToken w)) sandbox path content
                 ''file'' (if appendMode then ''append'' else ''overwrite'') w))"

text \<open>
  The format that \<open>files upload\<close> declares: the \<open>--format\<close> flag when it is given,
  else read off the final archive path.
\<close>

definition upload_format :: "string \<Rightarrow> string \<Rightarrow> string" where
  "upload_format format archivePath =
     (if format = [] then
        (if HasSuffix (ToLower archivePath) ''.tar.gz'' \<or> HasSuffix (ToLower archivePath) ''.tgz''
         then ''tar.gz'' else ''zip'')
      else format)"

text \<open>\<open>os.Remove\<close> of a temporary archive, deferred by \<open>files upload\<close>.\<close>

definition Remove :: "string \<Rightarrow> world \<Rightarrow> world" where
  "Remove name w = w\<lparr>Files := filter (\<lambda>kv. fst kv \<noteq> name) (Files w)\<rparr>"

definition newFilesUploadCmd ::
  "env \<Rightarrow> string \<Rightarrow> string \<Rightarrow> string \<Rightarrow> string \<Rightarrow> world \<Rightarrow> error option \<times> world" where
  "newFilesUploadCmd e sandbox inputPath targetPath format w =
     (case requireAuth w of
        Some err \<Rightarrow> (Some err, w)
      | None \<Rightarrow>
          (case Stat e inputPath of
             Inl err \<Rightarrow> (Some (Errorf (''path not accessible: '' @ ErrorText err)), w)
           | Inr isDir \<Rightarrow>
               (let client = NewAPIClient GetAPIEndpoint (GetAuthToken w) in
                if isDir then
                  (case createZipFromDir e inputPath w of
                     (Inl err, w1) \<Rightarrow>
                       (Some (Errorf (''failed to zip directory: '' @ ErrorText err)), w1)
                   | (Inr tmpZip, w1) \<Rightarrow>
                       (case UploadArchive e client sandbox tmpZip targetPath
                               (upload_format format tmpZip) w1 of
                          (r, w2) \<Rightarrow> (r, Remove tmpZip w2)))
                else if \<not> (HasSuffix (ToLower inputPath) ''.zip''
                             \<or> HasSuffix (ToLower inputPath) ''.tar.gz''
                             \<or> HasSuffix (ToLower inputPath) ''.tgz'') then
                  (case createZipFromFile e inputPath w of
                     (Inl err, w1) \<Rightarrow>
                       (Some (Errorf (''failed to zip file: '' @ ErrorText err)), w1)
                   | (Inr tmpZip, w1) \<Rightarrow>
                       (case UploadArchive e client sandbox tmpZip targetPath
                               (upload_format format tmpZip) w1 of
                          (r, w2) \<Rightarrow> (r, Remove tmpZip w2)))
                else
                  UploadArchive e client sandbox inputPath targetPath
                    (upload_format format inputPath) w)))"

definition newExecCmd :: "env \<Rightarrow> string \<Rightarrow> string \<Rightarrow> world \<Rightarrow> error option \<times> world" where
  "newExecCmd e command sandbox w =
     (case requireAuth w of
        Some err \<Rightarrow> (Some err, w)
      | None \<Rightarrow>
          (case RunCommand e (NewAPIClient GetAPIEndpoint (GetAuthToken w)) sandbox command w of
             (Inl err, w') \<Rightarrow> (Some err, w')
           | (Inr output, w') \<Rightarrow> (None, w')))"

text \<open>\<open>filepath.Ext\<close>.\<close>

definition Ext :: "env \<Rightarrow> string \<Rightarrow> string" where
  "Ext e path =
     (let t = takeWhile (\<lambda>c. \<not> IsPathSeparator e c) (rev path) in
      if CHR ''.'' \<in> set t then CHR ''.'' # rev (takeWhile (\<lambda>c. c \<noteq> CHR ''.'') t) else [])"

definition runFile ::
  "env \<Rightarrow> APIClient \<Rightarrow> string \<Rightarrow> string \<Rightarrow> string \<Rightarrow> world \<Rightarrow> error option \<times> world" where
  "runFile e client sandbox filePath forceLang w =
     (case ReadFile e filePath of
        Inl err \<Rightarrow>
          (Some (Errorf (''failed to read file '' @ filePath @ '': '' @ ErrorText err)), w)
      | Inr code \<Rightarrow>
          (case (if forceLang = [] then
                   (if ToLower (Ext e filePath) = ''.py'' then Inr ''python''
                    else Inl (Errorf (''only Python .py files are supported. File extension ''
                                      @ [CHR 0x27] @ ToLower (Ext e filePath) @ [CHR 0x27]
                                      @ '' is not supported'')))
                 else Inr forceLang) of
             Inl err \<Rightarrow> (Some err, w)
           | Inr lang \<Rightarrow>
               if lang \<noteq> ''python'' then
                 (Some (Errorf ''only Python files are supported. Provide a .py file''), w)
               else (case RunPython e client sandbox code [] w of
                       (Inl err, w') \<Rightarrow> (Some err, w')
                     | (Inr output, w') \<Rightarrow> (None, w'))))"

definition newRunCmd :: "env \<Rightarrow> string \<Rightarrow> string \<Rightarrow> world \<Rightarrow> error option \<times> world" where
  "newRunCmd e input sandbox w =
     (case requireAuth w of
        Some err \<Rightarrow> (Some err, w)
      | None \<Rightarrow>
          (let client = NewAPIClient GetAPIEndpoint (GetAuthToken w) in
           case Stat e input of
             Inr isDir \<Rightarrow>
               if isDir then
                 (Some (Errorf (''file not found or is a directory: '' @ input)), w)
               else runFile e client sandbox input [] w
           | Inl err \<Rightarrow>
               if HasSuffix (ToLower input) ''.py'' \<or> Contains input [Separator e] then
                 (Some (Errorf (''file not found or is a directory: '' @ input)), w)
               else (case RunPython e client sandbox input [] w of
                       (Inl err', w') \<Rightarrow> (Some err', w')
                     | (Inr output, w') \<Rightarrow> (None, w'))))"

definition newConfigCmd_show :: "env \<Rightarrow> world \<Rightarrow> error option \<times> world" where
  "newConfigCmd_show e w = (None, w)"

text \<open>The command line: one constructor for each command, with its arguments and flags.\<close>

datatype command =
    Login "string list" string
  | Logout
  | SandboxesList
  | SandboxesCreate string string "string list"
  | SandboxesDelete string bool
  | SandboxesStart string
  | SandboxesStop string
  | FilesList string
  | FilesDownload string string
  | FilesUpdate string string string bool
  | FilesUpload string string string string
  | Exec string string
  | Run string string
  | ConfigShow

fun RunE :: "env \<Rightarrow> command \<Rightarrow> world \<Rightarrow> error option \<times> world" where
  "RunE e (Login args token) w = newLoginCmd e args token w"
| "RunE e Logout w = newLogoutCmd e w"
| "RunE e SandboxesList w = newSandboxListCmd e w"
| "RunE e (SandboxesCreate name port envPairs) w = newSandboxCreateCmd e name port envPairs w"
| "RunE e (SandboxesDelete name force) w = newSandboxDeleteCmd e name force w"
| "RunE e (SandboxesStart name) w = newSandboxStartCmd e name w"
| "RunE e (SandboxesStop name) w = newSandboxStopCmd e name w"
| "RunE e (FilesList sandbox) w = newFilesListCmd e sandbox w"
| "RunE e (FilesDownload sandbox output) w = newFilesDownloadCmd e sandbox output w"
| "RunE e (FilesUpdate sandbox path localFile appendMode) w =
     newFilesUpdateCmd e sandbox path localFile appendMode w"
| "RunE e (FilesUpload sandbox inputPath targetPath format) w =
     newFilesUploadCmd e sandbox inputPath targetPath format w"
| "RunE e (Exec command sandbox) w = newExecCmd e command sandbox w"
| "RunE e (Run input sandbox) w = newRunCmd e input sandbox w"
| "RunE e ConfigShow w = newConfigCmd_show e w"

section \<open>The operations of the client, taken together\<close>

text \<open>
  To speak of every operation of the client at once: an operation with its arguments,
  the error it returns (\<open>None\<close> when it returns none), the status codes it takes for
  success and the text its error message starts with when the status is another one.
\<close>

datatype operation =
    OpGetAuthStatus
  | OpListSandboxes
  | OpCreateSandbox string string "(string \<times> string) list"
  | OpDeleteSandbox string
  | OpStartSandbox string
  | OpStopSandbox string
  | OpRunCommand string string
  | OpDownloadZip string string
  | OpListFiles string string int
  | OpUpdateFile string string string string string
  | OpUploadArchive string string string string
  | OpRunPython string string string

definition failure :: "error + 'a \<Rightarrow> error option" where
  "failure r = (case r of Inl err \<Rightarrow> Some err | Inr v \<Rightarrow> None)"

fun call :: "env \<Rightarrow> APIClient \<Rightarrow> operation \<Rightarrow> world \<Rightarrow> error option \<times> world" where
  "call e c OpGetAuthStatus w = (case GetAuthStatus e c w of (r, w') \<Rightarrow> (failure r, w'))"
| "call e c OpListSandboxes w = (case ListSandboxes e c w of (r, w') \<Rightarrow> (failure r, w'))"
| "call e c (OpCreateSandbox name port secrets) w =
     (case CreateSandbox e c name port secrets w of (r, w') \<Rightarrow> (failure r, w'))"
| "call e c (OpDeleteSandbox name) w = DeleteSandbox e c name w"
| "call e c (OpStartSandbox name) w = StartSandbox e c name w"
| "call e c (OpStopSandbox name) w = StopSandbox e c name w"
| "call e c (OpRunCommand sandboxName command) w =
     (case RunCommand e c sandboxName command w of (r, w') \<Rightarrow> (failure r, w'))"
| "call e c (OpDownloadZip sandboxID dir) w =
     (case DownloadZip e c sandboxID dir w of (r, w') \<Rightarrow> (failure r, w'))"
| "call e c (OpListFiles sandboxID dir maxDepth) w =
     (case ListFiles e c sandboxID dir maxDepth w of (r, w') \<Rightarrow> (failure r, w'))"
| "call e c (OpUpdateFile sandboxID path content fileType writeMode) w =
     UpdateFile e c sandboxID path content fileType writeMode w"
| "call e c (OpUploadArchive sandboxID archivePath targetPath format) w =
     UploadArchive e c sandboxID archivePath targetPath format w"
| "call e c (OpRunPython sandboxName code entrypoint) w =
     (case RunPython e c sandboxName code entrypoint w of (r, w') \<Rightarrow> (failure r, w'))"

fun success :: "operation \<Rightarrow> int list" where
  "success (OpCreateSandbox name port secrets) = [200, 201]"
| "success op = [200]"

fun failed_to :: "operation \<Rightarrow> string" where
  "failed_to OpGetAuthStatus = ''failed to get auth status: ''"
| "failed_to OpListSandboxes = ''failed to list sandboxes: ''"
| "failed_to (OpCreateSandbox name port secrets) = ''failed to create sandbox: ''"
| "failed_to (OpDeleteSandbox name) = ''failed to delete sandbox: ''"
| "failed_to (OpStartSandbox name) = ''failed to start sandbox: ''"
| "failed_to (OpStopSandbox name) = ''failed to stop sandbox: ''"
| "failed_to (OpRunCommand sandboxName command) = ''failed to run command: ''"
| "failed_to (OpDownloadZip sandboxID dir) = ''failed to download zip: ''"
| "failed_to (OpListFiles sandboxID dir maxDepth) = ''failed to list files: ''"
| "failed_to (OpUpdateFile sandboxID path content fileType writeMode) = ''failed to update file: ''"
| "failed_to (OpUploadArchive sandboxID archivePath targetPath format) = ''failed to upload archive: ''"
| "failed_to (OpRunPython sandboxName code entrypoint) = ''failed to run python: ''"

section \<open>Example inputs\<close>

text \<open>
  A host on which every request is answered by the same response, no file exists and
  nothing can be decoded; a client with a token; a world with a token and one without.
\<close>

definition server :: "http_response \<Rightarrow> env" where
  "server resp =
     \<lparr>Separator = CHR ''/'',
      NewRequest = (\<lambda>method url. None),
      Do = (\<lambda>req. Inr resp),
      FormDataContentType = ''multipart/form-data; boundary=b'',
      Decode_AuthStatusResponse = (\<lambda>b. Inl (Underlying ''EOF'')),
      Decode_list = (\<lambda>b. Inl (Underlying ''EOF'')),
      Decode_sandbox = (\<lambda>b. Inl (Underlying ''EOF'')),
      Decode_exec = (\<lambda>b. Inl (Underlying ''EOF'')),
      Decode_files = (\<lambda>b. Inl (Underlying ''EOF'')),
      Stat = (\<lambda>name. Inl (Underlying ''no such file or directory'')),
      Lstat = (\<lambda>name. NoStat (Underlying ''no such file or directory'')),
      Open = (\<lambda>name. Inl (Underlying ''no such file or directory'')),
      CreateTemp = Inr ''/tmp/everywhere-upload-1.zip'',
      Create = (\<lambda>name. None),
      Copy_err = (\<lambda>name. None),
      ReadPassword = Inl (Underlying ''EOF''),
      ReadString = Inl (Underlying ''EOF''),
      Stdin_Stat = Some True,
      Stdin_ReadAll = Inl (Underlying ''EOF''),
      WriteConfig = (\<lambda>token email. None)\<rparr>"

definition response :: "int \<Rightarrow> string \<Rightarrow> http_response" where
  "response code text = \<lparr>StatusCode = code, Header_resp = [], Body_resp = text\<rparr>"

definition client0 :: APIClient where
  "client0 = NewAPIClient GetAPIEndpoint ''abc123''"

definition world0 :: world where
  "world0 = \<lparr>auth_token = ''abc123'', user_email = ''a@b.com'', Sent = [], Files = []\<rparr>"

definition world_no_token :: world where
  "world_no_token = \<lparr>auth_token = [], user_email = [], Sent = [], Files = []\<rparr>"


text \<open>
  \<open>first_at t s n\<close>: the first occurrence of \<open>t\<close> in \<open>s\<close> starts at index \<open>n\<close>.
\<close>

definition first_at :: "string \<Rightarrow> string \<Rightarrow> nat \<Rightarrow> bool" where
  "first_at t s n \<longleftrightarrow>
     take (length t) (drop n s) = t \<and> (\<forall>i<n. take (length t) (drop i s) \<noteq> t)"

text \<open>A host that answers every request with status 200 and the given header.\<close>

definition download_server :: "(string \<times> string list) list \<Rightarrow> env" where
  "download_server h = server \<lparr>StatusCode = 200, Header_resp = h, Body_resp = ''PK''\<rparr>"

text \<open>
  A host on which every path is a file holding \<open>bytes\<close> and every request is answered
  with status 200.
\<close>

definition file_host :: env where
  "file_host =
     (server (response 200 ''ok''))\<lparr>Stat := (\<lambda>name. Inr False), Open := (\<lambda>name. Inr (Inr ''bytes''))\<rparr>"


section \<open>What a request that was sent tells\<close>

lemma makeRequest_sent:
  assumes "makeRequest e c method endpoint b w = (r, w')" and "Sent w' = Sent w @ [req]"
  shows "r = Do e req \<and> Method req = method \<and> URL req = BaseURL c @ endpoint \<and> Body req = b"
  using assms by (auto simp: makeRequest_def Let_def split: option.splits)


lemma makeRequest_answer:
  assumes "makeRequest e c method endpoint b w = (x, w1)" and "Sent w1 = Sent w @ [req]"
    and "Do e req = Inr resp"
  shows "x = Inr resp"
  using makeRequest_sent [OF assms(1,2)] assms(3) by simp

lemma GetAuthStatus_sent:
  assumes "GetAuthStatus e c w = (r, w')" and "Sent w' = Sent w @ [req]"
    and "Do e req = Inr resp"
  shows "r = (if StatusCode resp = 401
              then Inl (Errorf (''authentication failed: '' @ Body_resp resp))
              else if StatusCode resp \<noteq> 200
              then Inl (Errorf (''failed to get auth status: '' @ itoa (StatusCode resp) @ '' - ''
                                @ Body_resp resp))
              else (case Decode_AuthStatusResponse e (Body_resp resp) of
                      Inl err \<Rightarrow> Inl err
                    | Inr authStatus \<Rightarrow> Inr authStatus))"
proof -
  obtain x w1 where mr: "makeRequest e c ''GET'' ''/auth/status'' None w = (x, w1)"
    by (cases "makeRequest e c ''GET'' ''/auth/status'' None w")
  with assms(1) have "w1 = w'"
    by (simp add: GetAuthStatus_def split: sum.splits if_splits)
  with mr assms(2,3) have "x = Inr resp"
    by (simp add: makeRequest_answer)
  with assms(1) mr show ?thesis
    by (auto simp: GetAuthStatus_def split: sum.splits if_splits)
qed

lemma ListSandboxes_sent:
  assumes "ListSandboxes e c w = (r, w')" and "Sent w' = Sent w @ [req]"
    and "Do e req = Inr resp"
  shows "r = (if StatusCode resp \<noteq> 200
              then Inl (Errorf (''failed to list sandboxes: '' @ Body_resp resp))
              else (case Decode_list e (Body_resp resp) of
                      Inl err \<Rightarrow> Inl err
                    | Inr apiResp \<Rightarrow> Inr (Items (Data apiResp))))"
proof -
  obtain x w1 where mr: "makeRequest e c ''GET'' ''/sandbox'' None w = (x, w1)"
    by (cases "makeRequest e c ''GET'' ''/sandbox'' None w")
  with assms(1) have "w1 = w'"
    by (simp add: ListSandboxes_def Let_def split: sum.splits if_splits)
  with mr assms(2,3) have "x = Inr resp"
    by (simp add: makeRequest_answer)
  with assms(1) mr show ?thesis
    by (auto simp: ListSandboxes_def Let_def split: sum.splits if_splits)
qed

lemma CreateSandbox_sent:
  assumes "CreateSandbox e c name port secrets w = (r, w')" and "Sent w' = Sent w @ [req]"
    and "Do e req = Inr resp"
  shows "r = (if StatusCode resp \<noteq> 200 \<and> StatusCode resp \<noteq> 201
              then Inl (Errorf (''failed to create sandbox: '' @ Body_resp resp))
              else (case Decode_sandbox e (Body_resp resp) of
                      Inl err \<Rightarrow> Inl err
                    | Inr apiResp \<Rightarrow> Inr (Data apiResp)))"
proof -
  obtain x w1 where mr: "makeRequest e c ''POST'' ''/sandbox'' (Some (MapAny (createReq name port secrets))) w = (x, w1)"
    by (cases "makeRequest e c ''POST'' ''/sandbox'' (Some (MapAny (createReq name port secrets))) w")
  with assms(1) have "w1 = w'"
    by (simp add: CreateSandbox_def Let_def split: sum.splits if_splits)
  with mr assms(2,3) have "x = Inr resp"
    by (simp add: makeRequest_answer)
  with assms(1) mr show ?thesis
    by (auto simp: CreateSandbox_def Let_def split: sum.splits if_splits)
qed

lemma DeleteSandbox_sent:
  assumes "DeleteSandbox e c name w = (r, w')" and "Sent w' = Sent w @ [req]"
    and "Do e req = Inr resp"
  shows "r = (if StatusCode resp \<noteq> 200
              then Some (Errorf (''failed to delete sandbox: '' @ Body_resp resp)) else None)"
proof -
  obtain x w1 where mr: "makeRequest e c ''DELETE'' (''/sandbox/'' @ name) None w = (x, w1)"
    by (cases "makeRequest e c ''DELETE'' (''/sandbox/'' @ name) None w")
  with assms(1) have "w1 = w'"
    by (simp add: DeleteSandbox_def Let_def split: sum.splits if_splits)
  with mr assms(2,3) have "x = Inr resp"
    by (simp add: makeRequest_answer)
  with assms(1) mr show ?thesis
    by (auto simp: DeleteSandbox_def Let_def split: sum.splits if_splits)
qed

lemma StartSandbox_sent:
  assumes "StartSandbox e c name w = (r, w')" and "Sent w' = Sent w @ [req]"
    and "Do e req = Inr resp"
  shows "r = (if StatusCode resp \<noteq> 200
              then Some (Errorf (''failed to start sandbox: '' @ Body_resp resp)) else None)"
proof -
  obtain x w1 where mr: "makeRequest e c ''PUT'' (''/sandbox/'' @ name @ ''/start'') None w = (x, w1)"
    by (cases "makeRequest e c ''PUT'' (''/sandbox/'' @ name @ ''/start'') None w")
  with assms(1) have "w1 = w'"
    by (simp add: StartSandbox_def Let_def split: sum.splits if_splits)
  with mr assms(2,3) have "x = Inr resp"
    by (simp add: makeRequest_answer)
  with assms(1) mr show ?thesis
    by (auto simp: StartSandbox_def Let_def split: sum.splits if_splits)
qed

lemma StopSandbox_sent:
  assumes "StopSandbox e c name w = (r, w')" and "Sent w' = Sent w @ [req]"
    and "Do e req = Inr resp"
  shows "r = (if StatusCode resp \<noteq> 200
              then Some (Errorf (''failed to stop sandbox: '' @ Body_resp resp)) else None)"
proof -
  obtain x w1 where mr: "makeRequest e c ''PUT'' (''/sandbox/'' @ name @ ''/stop'') None w = (x, w1)"
    by (cases "makeRequest e c ''PUT'' (''/sandbox/'' @ name @ ''/stop'') None w")
  with assms(1) have "w1 = w'"
    by (simp add: StopSandbox_def Let_def split: sum.splits if_splits)
  with mr assms(2,3) have "x = Inr resp"
    by (simp add: makeRequest_answer)
  with assms(1) mr show ?thesis
    by (auto simp: StopSandbox_def Let_def split: sum.splits if_splits)
qed

lemma RunCommand_sent:
  assumes "RunCommand e c sandboxName command w = (r, w')" and "Sent w' = Sent w @ [req]"
    and "Do e req = Inr resp"
  shows "r = (if StatusCode resp \<noteq> 200
              then Inl (Errorf (''failed to run command: '' @ Body_resp resp))
              else (case Decode_exec e (Body_resp resp) of
                      Inl err \<Rightarrow> Inl err
                    | Inr apiResp \<Rightarrow>
                        if Error (Data apiResp) \<noteq> []
                        then Inl (Errorf (''command failed: '' @ Error (Data apiResp)))
                        else Inr (Output (Data apiResp))))"
proof -
  obtain x w1 where mr: "makeRequest e c ''POST'' ''/sandbox/exec''
        (Some (MapString (if sandboxName \<noteq> [] then map_update ''id'' sandboxName [(''command'', command)]
                          else [(''command'', command)]))) w = (x, w1)"
    by (cases "makeRequest e c ''POST'' ''/sandbox/exec''
        (Some (MapString (if sandboxName \<noteq> [] then map_update ''id'' sandboxName [(''command'', command)]
                          else [(''command'', command)]))) w")
  with assms(1) have "w1 = w'"
    by (simp add: RunCommand_def Let_def split: sum.splits if_splits)
  with mr assms(2,3) have "x = Inr resp"
    by (simp add: makeRequest_answer)
  with assms(1) mr show ?thesis
    by (auto simp: RunCommand_def Let_def split: sum.splits if_splits)
qed

lemma DownloadZip_sent:
  assumes "DownloadZip e c sandboxID dir w = (r, w')" and "Sent w' = Sent w @ [req]"
    and "Do e req = Inr resp"
  shows "r = (if StatusCode resp \<noteq> 200
              then Inl (Errorf (''failed to download zip: '' @ Body_resp resp))
              else Inr (Body_resp resp,
                        DownloadZip_filename (Header_Get (Header_resp resp) ''Content-Disposition'')))"
proof -
  obtain x w1 where mr: "makeRequest e c ''GET''
        (if dir \<noteq> [] then ''/sandbox/'' @ sandboxID @ ''/zip'' @ ''?dir='' @ dir
         else ''/sandbox/'' @ sandboxID @ ''/zip'') None w = (x, w1)"
    by (cases "makeRequest e c ''GET''
        (if dir \<noteq> [] then ''/sandbox/'' @ sandboxID @ ''/zip'' @ ''?dir='' @ dir
         else ''/sandbox/'' @ sandboxID @ ''/zip'') None w")
  with assms(1) have "w1 = w'"
    by (simp add: DownloadZip_def Let_def split: sum.splits if_splits)
  with mr assms(2,3) have "x = Inr resp"
    by (simp add: makeRequest_answer)
  with assms(1) mr show ?thesis
    by (auto simp: DownloadZip_def Let_def split: sum.splits if_splits)
qed

lemma ListFiles_sent:
  assumes "ListFiles e c sandboxID dir maxDepth w = (r, w')" and "Sent w' = Sent w @ [req]"
    and "Do e req = Inr resp"
  shows "r = (if StatusCode resp \<noteq> 200
              then Inl (Errorf (''failed to list files: '' @ Body_resp resp))
              else (case Decode_files e (Body_resp resp) of
                      Inl err \<Rightarrow> Inl err
                    | Inr apiResp \<Rightarrow> Inr (Data apiResp)))"
proof -
  define endpoint where "endpoint =
     (let endpoint0 = ''/sandbox/'' @ sandboxID @ ''/files'';
          params0 = [];
          params1 = (if dir \<noteq> [] then params0 @ [''dir='' @ dir] else params0);
          params = (if 0 < maxDepth then params1 @ [''max_depth='' @ itoa maxDepth] else params1)
      in (if 0 < length params then endpoint0 @ ''?'' @ Join params ''&'' else endpoint0))"
  obtain x w1 where mr: "makeRequest e c ''GET'' endpoint None w = (x, w1)"
    by (cases "makeRequest e c ''GET'' endpoint None w")
  with assms(1) have "w1 = w'"
    by (simp add: ListFiles_def endpoint_def Let_def split: sum.splits if_splits)
  with mr assms(2,3) have "x = Inr resp"
    by (simp add: makeRequest_answer)
  with assms(1) mr show ?thesis
    by (auto simp: ListFiles_def endpoint_def Let_def split: sum.splits if_splits)
qed

lemma UpdateFile_sent:
  assumes "UpdateFile e c sandboxID path content fileType writeMode w = (r, w')"
    and "Sent w' = Sent w @ [req]" and "Do e req = Inr resp"
  shows "r = (if StatusCode resp \<noteq> 200
              then Some (Errorf (''failed to update file: '' @ Body_resp resp)) else None)"
proof -
  define b where "b =
     (let r0 = [(''path'', path), (''content'', content), (''type'', fileType)]
      in Some (MapString (if writeMode \<noteq> [] then map_update ''write_mode'' writeMode r0 else r0)))"
  obtain x w1 where mr: "makeRequest e c ''PUT'' (''/sandbox/'' @ sandboxID @ ''/files'') b w = (x, w1)"
    by (cases "makeRequest e c ''PUT'' (''/sandbox/'' @ sandboxID @ ''/files'') b w")
  with assms(1) have "w1 = w'"
    by (simp add: UpdateFile_def b_def Let_def split: sum.splits if_splits)
  with mr assms(2,3) have "x = Inr resp"
    by (simp add: makeRequest_answer)
  with assms(1) mr show ?thesis
    by (auto simp: UpdateFile_def b_def Let_def split: sum.splits if_splits)
qed

lemma RunPython_sent:
  assumes "RunPython e c sandboxName code entrypoint w = (r, w')"
    and "Sent w' = Sent w @ [req]" and "Do e req = Inr resp"
  shows "r = (if StatusCode resp \<noteq> 200
              then Inl (Errorf (''failed to run python: '' @ Body_resp resp))
              else (case Decode_exec e (Body_resp resp) of
                      Inl err \<Rightarrow> Inl err
                    | Inr apiResp \<Rightarrow>
                        if Error (Data apiResp) \<noteq> []
                        then Inl (Errorf (''python execution failed: '' @ Error (Data apiResp)))
                        else Inr (Output (Data apiResp))))"
proof -
  define b where "b =
     (let r0 = [(''code'', code)];
          r1 = (if sandboxName \<noteq> [] then map_update ''id'' sandboxName r0 else r0)
      in Some (MapString (if entrypoint \<noteq> [] then map_update ''entrypoint'' entrypoint r1
                          else r1)))"
  obtain x w1 where mr: "makeRequest e c ''POST'' ''/sandbox/run'' b w = (x, w1)"
    by (cases "makeRequest e c ''POST'' ''/sandbox/run'' b w")
  with assms(1) have "w1 = w'"
    by (simp add: RunPython_def b_def Let_def split: sum.splits if_splits)
  with mr assms(2,3) have "x = Inr resp"
    by (simp add: makeRequest_answer)
  with assms(1) mr show ?thesis
    by (auto simp: RunPython_def b_def Let_def split: sum.splits if_splits)
qed

lemma UploadArchive_sent:
  assumes "UploadArchive e c sandboxID archivePath targetPath format w = (r, w')"
    and "Sent w' = Sent w @ [req]" and "Do e req = Inr resp"
  shows "r = (if StatusCode resp \<noteq> 200
              then Some (Errorf (''failed to upload archive: '' @ Body_resp resp)) else None)"
  using assms
  by (auto simp: UploadArchive_def Let_def split: sum.splits option.splits if_splits)

section \<open>The auth-status check\<close>

text \<open>
  C4. When the response to the auth-status request has status 401, \<open>GetAuthStatus\<close>
  returns the error \<open>authentication failed: \<close> followed by the body; for any response
  with another status that is not 200 it returns \<open>failed to get auth status: \<close>
  followed by the status and the body; and the two errors differ, whatever the bodies.
\<close>

theorem GetAuthStatus_unauthorized:
  assumes "GetAuthStatus e c w = (r, w1)" and "Sent w1 = Sent w @ [req]"
    and "Do e req = Inr resp" and "StatusCode resp = 401"
    and "GetAuthStatus e' c' w' = (r', w1')" and "Sent w1' = Sent w' @ [req']"
    and "Do e' req' = Inr resp'" and "StatusCode resp' \<noteq> 401" and "StatusCode resp' \<noteq> 200"
  shows "r = Inl (Errorf (''authentication failed: '' @ Body_resp resp)) \<and>
         r' = Inl (Errorf (''failed to get auth status: '' @ itoa (StatusCode resp') @ '' - ''
                           @ Body_resp resp')) \<and>
         r \<noteq> r'"
proof -
  from GetAuthStatus_sent [OF assms(1-3)] assms(4)
  have 1: "r = Inl (Errorf (''authentication failed: '' @ Body_resp resp))"
    by simp
  from GetAuthStatus_sent [OF assms(5-7)] assms(8,9)
  have 2: "r' = Inl (Errorf (''failed to get auth status: ''
      @ itoa (StatusCode resp') @ '' - '' @ Body_resp resp'))"
    by simp
  from 1 2 show ?thesis by simp
qed

theorem GetAuthStatus_unauthorized_witness:
  "fst (GetAuthStatus (server (response 401 ''no token'')) client0 world0)
     = Inl (Errorf ''authentication failed: no token'') \<and>
   fst (GetAuthStatus (server (response 503 ''no token'')) client0 world0)
     = Inl (Errorf ''failed to get auth status: 503 - no token'') \<and>
   fst (GetAuthStatus (server (response 401 ''no token'')) client0 world0)
     \<noteq> fst (GetAuthStatus (server (response 503 ''no token'')) client0 world0)"
proof -
  define req where "req = \<lparr>Method = ''GET'', URL = ''https://api.everywhere.dev/api/v1/auth/status'',
    Header = [(''Content-Type'', ''application/json''), (''Authorization'', ''Bearer abc123'')],
    Body = None\<rparr>"
  define w1 where "w1 = world0\<lparr>Sent := [req]\<rparr>"
  have a: "GetAuthStatus (server (response 401 ''no token'')) client0 world0
             = (Inl (Errorf ''authentication failed: no token''), w1)"
    by (simp add: GetAuthStatus_def makeRequest_def server_def response_def client0_def
          world0_def NewAPIClient_def GetAPIEndpoint_def defaultAPIEndpoint_def w1_def req_def)
  have b: "GetAuthStatus (server (response 503 ''no token'')) client0 world0
             = (Inl (Errorf ''failed to get auth status: 503 - no token''), w1)"
    by (simp add: GetAuthStatus_def makeRequest_def server_def response_def client0_def
          world0_def NewAPIClient_def GetAPIEndpoint_def defaultAPIEndpoint_def w1_def req_def
          itoa_def utoa.simps digit_def)
  have s: "Sent w1 = Sent world0 @ [req]"
    by (simp add: w1_def world0_def)
  have d1: "Do (server (response 401 ''no token'')) req = Inr (response 401 ''no token'')"
    and d2: "Do (server (response 503 ''no token'')) req = Inr (response 503 ''no token'')"
    by (simp_all add: server_def)
  have c1: "StatusCode (response 401 ''no token'') = 401"
    and c2: "StatusCode (response 503 ''no token'') \<noteq> 401"
    and c3: "StatusCode (response 503 ''no token'') \<noteq> 200"
    by (simp_all add: response_def)
  from GetAuthStatus_unauthorized [OF a s d1 c1 b s d2 c2 c3]
  show ?thesis by (simp add: a b)
qed

section \<open>A status outside the success set\<close>

text \<open>
  C1, as the code has it. When an operation has sent its request and the response has a
  status that the operation does not take for success, the operation returns an error
  whose message is the operation's own opening text followed by the body of the response
  as it was read. The status code is in the message of \<open>GetAuthStatus\<close> alone, whose
  message for status 401 is \<open>authentication failed: \<close> followed by the body.
\<close>

theorem status_error:
  assumes "call e c op w = (r, w')" and "Sent w' = Sent w @ [req]"
    and "Do e req = Inr resp" and "StatusCode resp \<notin> set (success op)"
  shows "r = Some (Errorf
           (if op = OpGetAuthStatus \<and> StatusCode resp = 401
              then ''authentication failed: '' @ Body_resp resp
            else if op = OpGetAuthStatus
              then failed_to op @ itoa (StatusCode resp) @ '' - '' @ Body_resp resp
            else failed_to op @ Body_resp resp))"
proof (cases op)
  case OpGetAuthStatus
  with assms(1) obtain r0 where h: "GetAuthStatus e c w = (r0, w')"
    and r: "r = failure r0"
    by (auto split: prod.splits)
  from GetAuthStatus_sent [OF h assms(2,3)] r assms(4) OpGetAuthStatus show ?thesis
    by (simp add: failure_def)
next
  case OpListSandboxes
  with assms(1) obtain r0 where h: "ListSandboxes e c w = (r0, w')"
    and r: "r = failure r0"
    by (auto split: prod.splits)
  from ListSandboxes_sent [OF h assms(2,3)] r assms(4) OpListSandboxes show ?thesis
    by (simp add: failure_def)
next
  case (OpCreateSandbox name port secrets)
  with assms(1) obtain r0 where h: "CreateSandbox e c name port secrets w = (r0, w')"
    and r: "r = failure r0"
    by (auto split: prod.splits)
  from CreateSandbox_sent [OF h assms(2,3)] r assms(4) OpCreateSandbox show ?thesis
    by (simp add: failure_def)
next
  case (OpDeleteSandbox name)
  with assms(1) have h: "DeleteSandbox e c name w = (r, w')"
    by simp
  from DeleteSandbox_sent [OF h assms(2,3)] assms(4) OpDeleteSandbox show ?thesis
    by simp
next
  case (OpStartSandbox name)
  with assms(1) have h: "StartSandbox e c name w = (r, w')"
    by simp
  from StartSandbox_sent [OF h assms(2,3)] assms(4) OpStartSandbox show ?thesis
    by simp
next
  case (OpStopSandbox name)
  with assms(1) have h: "StopSandbox e c name w = (r, w')"
    by simp
  from StopSandbox_sent [OF h assms(2,3)] assms(4) OpStopSandbox show ?thesis
    by simp
next
  case (OpRunCommand sandboxName command)
  with assms(1) obtain r0 where h: "RunCommand e c sandboxName command w = (r0, w')"
    and r: "r = failure r0"
    by (auto split: prod.splits)
  from RunCommand_sent [OF h assms(2,3)] r assms(4) OpRunCommand show ?thesis
    by (simp add: failure_def)
next
  case (OpDownloadZip sandboxID dir)
  with assms(1) obtain r0 where h: "DownloadZip e c sandboxID dir w = (r0, w')"
    and r: "r = failure r0"
    by (auto split: prod.splits)
  from DownloadZip_sent [OF h assms(2,3)] r assms(4) OpDownloadZip show ?thesis
    by (simp add: failure_def)
next
  case (OpListFiles sandboxID dir maxDepth)
  with assms(1) obtain r0 where h: "ListFiles e c sandboxID dir maxDepth w = (r0, w')"
    and r: "r = failure r0"
    by (auto split: prod.splits)
  from ListFiles_sent [OF h assms(2,3)] r assms(4) OpListFiles show ?thesis
    by (simp add: failure_def)
next
  case (OpUpdateFile sandboxID path content fileType writeMode)
  with assms(1) have h: "UpdateFile e c sandboxID path content fileType writeMode w = (r, w')"
    by simp
  from UpdateFile_sent [OF h assms(2,3)] assms(4) OpUpdateFile show ?thesis
    by simp
next
  case (OpUploadArchive sandboxID archivePath targetPath format)
  with assms(1) have h: "UploadArchive e c sandboxID archivePath targetPath format w = (r, w')"
    by simp
  from UploadArchive_sent [OF h assms(2,3)] assms(4) OpUploadArchive show ?thesis
    by simp
next
  case (OpRunPython sandboxName code entrypoint)
  with assms(1) obtain r0 where h: "RunPython e c sandboxName code entrypoint w = (r0, w')"
    and r: "r = failure r0"
    by (auto split: prod.splits)
  from RunPython_sent [OF h assms(2,3)] r assms(4) OpRunPython show ?thesis
    by (simp add: failure_def)
qed

theorem status_error_witness:
  "fst (call (server (response 404 ''no such sandbox'')) client0
          (OpDeleteSandbox ''box'') world0)
     = Some (Errorf ''failed to delete sandbox: no such sandbox'')"
proof -
  define req where "req = \<lparr>Method = ''DELETE'',
    URL = ''https://api.everywhere.dev/api/v1/sandbox/box'',
    Header = [(''Content-Type'', ''application/json''), (''Authorization'', ''Bearer abc123'')],
    Body = None\<rparr>"
  define resp where "resp = response 404 ''no such sandbox''"
  obtain r w1 where a: "call (server resp) client0 (OpDeleteSandbox ''box'') world0 = (r, w1)"
    by (cases "call (server resp) client0 (OpDeleteSandbox ''box'') world0")
  then have s: "Sent w1 = Sent world0 @ [req]"
    by (auto simp: DeleteSandbox_def makeRequest_def server_def client0_def world0_def
          NewAPIClient_def GetAPIEndpoint_def defaultAPIEndpoint_def req_def
          split: if_splits)
  have d: "Do (server resp) req = Inr resp"
    by (simp add: server_def)
  have c: "StatusCode resp \<notin> set (success (OpDeleteSandbox ''box''))"
    by (simp add: resp_def response_def)
  from status_error [OF a s d c] a show ?thesis
    by (simp add: resp_def response_def)
qed

text \<open>
  C1 as stated fails: for two responses that differ in their status only, 500 and 404,
  \<open>ListSandboxes\<close> returns one and the same error, whose message has the body and no
  status code.
\<close>

theorem status_error_counterexample:
  "fst (ListSandboxes (server (response 500 ''boom'')) client0 world0)
     = Inl (Errorf ''failed to list sandboxes: boom'') \<and>
   fst (ListSandboxes (server (response 404 ''boom'')) client0 world0)
     = Inl (Errorf ''failed to list sandboxes: boom'')"
  by (simp add: ListSandboxes_def makeRequest_def server_def response_def client0_def
        world0_def NewAPIClient_def)

section \<open>Execution results\<close>





section \<open>The body of a creation request\<close>

lemma CreateSandbox_body:
  assumes "CreateSandbox e c name port secrets w = (r, w')" and "Sent w' = Sent w @ [req]"
  shows "Body req = Some (MapAny (createReq name port secrets))"
proof -
  obtain x w1 where mr: "makeRequest e c ''POST'' ''/sandbox''
      (Some (MapAny (createReq name port secrets))) w = (x, w1)"
    by (cases "makeRequest e c ''POST'' ''/sandbox''
      (Some (MapAny (createReq name port secrets))) w")
  with assms(1) have "w1 = w'"
    by (simp add: CreateSandbox_def split: sum.splits if_splits)
  with mr assms(2) show ?thesis
    by (simp add: makeRequest_sent)
qed

text \<open>
  C10. The map that \<open>CreateSandbox\<close> sends as its request body has the key \<open>name\<close>
  exactly when the name is not empty, the key \<open>port\<close> exactly when the port is not empty
  and the key \<open>secrets\<close> exactly when the secrets map is not empty, each with the value
  given, and no other key; when all three are empty it is the empty map, that is the
  empty JSON object.
\<close>

theorem CreateSandbox_request_body:
  "map_of (createReq name port secrets) ''name''
     = (if name \<noteq> [] then Some (String name) else None) \<and>
   map_of (createReq name port secrets) ''port''
     = (if port \<noteq> [] then Some (String port) else None) \<and>
   map_of (createReq name port secrets) ''secrets''
     = (if secrets \<noteq> [] then Some (StringMap secrets) else None) \<and>
   set (map fst (createReq name port secrets)) \<subseteq> {''name'', ''port'', ''secrets''} \<and>
   distinct (map fst (createReq name port secrets)) \<and>
   (name = [] \<and> port = [] \<and> secrets = [] \<longrightarrow> createReq name port secrets = []) \<and>
   (CreateSandbox e c name port secrets w = (r, w') \<and> Sent w' = Sent w @ [req]
      \<longrightarrow> Body req = Some (MapAny (createReq name port secrets)))"
  using CreateSandbox_body [of e c name port secrets w r w' req]
  by (simp add: createReq_def)

theorem CreateSandbox_request_body_witness:
  "createReq [] [] [] = [] \<and>
   createReq ''foo'' [] [(''KEY'', ''VAL'')]
     = [(''name'', String ''foo''), (''secrets'', StringMap [(''KEY'', ''VAL'')])] \<and>
   map Body (Sent (snd (CreateSandbox (server (response 201 ''{}'')) client0 [] [] [] world0)))
     = [Some (MapAny [])]"
proof -
  define rq where "rq = \<lparr>Method = ''POST'', URL = ''https://api.everywhere.dev/api/v1/sandbox'',
    Header = [(''Content-Type'', ''application/json''), (''Authorization'', ''Bearer abc123'')],
    Body = Some (MapAny [])\<rparr>"
  define w1 where "w1 = world0\<lparr>Sent := [rq]\<rparr>"
  have a: "CreateSandbox (server (response 201 ''{}'')) client0 [] [] [] world0
             = (Inl (Underlying ''EOF''), w1)"
    by (simp add: CreateSandbox_def createReq_def makeRequest_def server_def response_def
          client0_def world0_def NewAPIClient_def GetAPIEndpoint_def defaultAPIEndpoint_def
          w1_def rq_def)
  have s: "Sent w1 = Sent world0 @ [rq]"
    by (simp add: w1_def world0_def)
  note t = CreateSandbox_request_body [of "[]" "[]" "[]" "server (response 201 ''{}'')" client0
      world0 "Inl (Underlying ''EOF'')" w1 rq]
  from t have 1: "createReq [] [] [] = []"
    by blast
  from t a s have 2: "Body rq = Some (MapAny (createReq [] [] []))"
    by blast
  have 3: "createReq ''foo'' [] [(''KEY'', ''VAL'')]
     = [(''name'', String ''foo''), (''secrets'', StringMap [(''KEY'', ''VAL'')])]"
    by (simp add: createReq_def)
  have 4: "map Body (Sent w1) = [Some (MapAny [])]"
    using 1 2 s by (simp add: world0_def)
  from a have "snd (CreateSandbox (server (response 201 ''{}'')) client0 [] [] [] world0) = w1"
    by simp
  with 1 3 4 show ?thesis
    by simp
qed

section \<open>The file name of a download\<close>

lemma Index_first:
  assumes "first_at t s n" and "t \<noteq> []"
  shows "Index s t = int n"
  using assms
proof (induction s arbitrary: n)
  case Nil
  then show ?case by (simp add: first_at_def)
next
  case (Cons c s)
  show ?case
  proof (cases n)
    case 0
    with Cons.prems show ?thesis by (simp add: first_at_def)
  next
    case (Suc m)
    from Cons.prems Suc have here: "take (length t) (c # s) \<noteq> t"
      by (auto simp: first_at_def)
    have "first_at t s m"
      unfolding first_at_def
    proof (intro conjI allI impI)
      from Cons.prems Suc show "take (length t) (drop m s) = t"
        by (simp add: first_at_def)
    next
      fix i assume "i < m"
      then have "Suc i < n" using Suc by simp
      with Cons.prems(1) have "take (length t) (drop (Suc i) (c # s)) \<noteq> t"
        unfolding first_at_def by blast
      then show "take (length t) (drop i s) \<noteq> t" by simp
    qed
    with Cons.IH Cons.prems(2) have "Index s t = int m" by blast
    with here Suc show ?thesis by (simp add: Let_def)
  qed
qed

lemma first_at_char:
  assumes "q \<notin> set name"
  shows "first_at [q] (name @ q # rest) (length name)"
  using assms
  by (auto simp: first_at_def take_Suc_conv_app_nth nth_append dest: nth_mem)

lemma DownloadZip_filename_token:
  assumes "cd = pre @ ''filename='' @ [CHR 0x22] @ name @ [CHR 0x22] @ rest"
    and "first_at (''filename='' @ [CHR 0x22]) cd (length pre)"
    and "CHR 0x22 \<notin> set name"
  shows "DownloadZip_filename cd = name"
proof -
  from assms(2) have idx: "Index cd (''filename='' @ [CHR 0x22]) = int (length pre)"
    by (rule Index_first) simp
  from assms(1) have rest: "drop (nat (int (length pre) + 10)) cd = name @ CHR 0x22 # rest"
    by (simp add: nat_add_distrib)
  from assms(3) have "Index (name @ CHR 0x22 # rest) [CHR 0x22] = int (length name)"
    by (intro Index_first first_at_char) simp_all
  with idx rest assms(1) show ?thesis
    by (simp add: DownloadZip_filename_def Let_def)
qed

text \<open>
  C8. When \<open>DownloadZip\<close> succeeds, the file name it returns is the text between the
  first \<open>filename=\<close> followed by a double quote in the \<open>Content-Disposition\<close> header of
  the response and the next double quote; when the response has no such header, the file
  name is \<open>download.zip\<close>. The stream it returns is the body of the response.
\<close>

theorem DownloadZip_filename_parsed:
  assumes "DownloadZip e c sandboxID dir w = (Inr (stream, fname), w')"
    and "Sent w' = Sent w @ [req]" and "Do e req = Inr resp"
  shows "(\<forall>pre name rest.
            Header_Get (Header_resp resp) ''Content-Disposition''
              = pre @ ''filename='' @ [CHR 0x22] @ name @ [CHR 0x22] @ rest \<and>
            first_at (''filename='' @ [CHR 0x22])
              (Header_Get (Header_resp resp) ''Content-Disposition'') (length pre) \<and>
            CHR 0x22 \<notin> set name
            \<longrightarrow> fname = name) \<and>
         (map_of (Header_resp resp) ''Content-Disposition'' = None \<longrightarrow> fname = ''download.zip'') \<and>
         stream = Body_resp resp"
proof -
  from DownloadZip_sent [OF assms]
  have r: "stream = Body_resp resp \<and>
           fname = DownloadZip_filename (Header_Get (Header_resp resp) ''Content-Disposition'')"
    by (simp split: if_splits)
  have "map_of (Header_resp resp) ''Content-Disposition'' = None \<Longrightarrow>
        DownloadZip_filename (Header_Get (Header_resp resp) ''Content-Disposition'') = ''download.zip''"
    by (simp add: Header_Get_def DownloadZip_filename_def)
  moreover have "DownloadZip_filename (Header_Get (Header_resp resp) ''Content-Disposition'') = name"
    if "Header_Get (Header_resp resp) ''Content-Disposition''
              = pre @ ''filename='' @ [CHR 0x22] @ name @ [CHR 0x22] @ rest"
      and "first_at (''filename='' @ [CHR 0x22])
              (Header_Get (Header_resp resp) ''Content-Disposition'') (length pre)"
      and "CHR 0x22 \<notin> set name"
    for pre name rest
    using that by (rule DownloadZip_filename_token)
  ultimately show ?thesis
    using r by blast
qed

theorem DownloadZip_filename_parsed_witness:
  "fst (DownloadZip
          (download_server [(''Content-Disposition'', [''attachment; filename='' @ [CHR 0x22]
                              @ ''box.zip'' @ [CHR 0x22] @ ''; size=2''])])
          client0 ''box'' [] world0)
     = Inr (''PK'', ''box.zip'') \<and>
   fst (DownloadZip (download_server []) client0 ''box'' [] world0) = Inr (''PK'', ''download.zip'')"
proof -
  define h where "h = [(''Content-Disposition'', [''attachment; filename='' @ [CHR 0x22]
                              @ ''box.zip'' @ [CHR 0x22] @ ''; size=2''])]"
  define rq where "rq = \<lparr>Method = ''GET'', URL = ''https://api.everywhere.dev/api/v1/sandbox/box/zip'',
    Header = [(''Content-Type'', ''application/json''), (''Authorization'', ''Bearer abc123'')],
    Body = None\<rparr>"
  define w1 where "w1 = world0\<lparr>Sent := [rq]\<rparr>"
  note defs = makeRequest_def download_server_def server_def client0_def world0_def
    NewAPIClient_def GetAPIEndpoint_def defaultAPIEndpoint_def Let_def
  obtain f1 where a1: "DownloadZip (download_server h) client0 ''box'' [] world0
      = (Inr (''PK'', f1), w1)"
    by (simp add: DownloadZip_def defs w1_def rq_def)
  obtain f2 where a2: "DownloadZip (download_server []) client0 ''box'' [] world0
      = (Inr (''PK'', f2), w1)"
    by (simp add: DownloadZip_def defs w1_def rq_def)
  have s: "Sent w1 = Sent world0 @ [rq]"
    by (simp add: w1_def world0_def)
  have d: "\<And>h. Do (download_server h) rq = Inr \<lparr>StatusCode = 200, Header_resp = h, Body_resp = ''PK''\<rparr>"
    by (simp add: download_server_def server_def)
  have g: "Header_Get (Header_resp \<lparr>StatusCode = 200, Header_resp = h, Body_resp = ''PK''\<rparr>)
             ''Content-Disposition''
           = ''attachment; '' @ ''filename='' @ [CHR 0x22] @ ''box.zip'' @ [CHR 0x22] @ ''; size=2''"
    by (simp add: Header_Get_def h_def)
  have fa: "first_at (''filename='' @ [CHR 0x22])
      (Header_Get (Header_resp \<lparr>StatusCode = 200, Header_resp = h, Body_resp = ''PK''\<rparr>)
         ''Content-Disposition'') (length ''attachment; '')"
    by (simp add: first_at_def Header_Get_def h_def less_Suc_eq_0_disj numeral_eq_Suc drop_Cons')
  have q: "CHR 0x22 \<notin> set ''box.zip''"
    by simp
  from DownloadZip_filename_parsed [OF a1 s d] g fa q have "f1 = ''box.zip''"
    by blast
  moreover
  have "map_of (Header_resp \<lparr>StatusCode = 200, Header_resp = [], Body_resp = ''PK''\<rparr>)
          ''Content-Disposition'' = None"
    by simp
  with DownloadZip_filename_parsed [OF a2 s d] have "f2 = ''download.zip''"
    by blast
  ultimately show ?thesis
    using a1 a2 by (simp add: h_def)
qed

section \<open>Suffixes and substrings\<close>

lemma HasSuffix_iff: "HasSuffix s suf \<longleftrightarrow> (\<exists>stem. s = stem @ suf)"
proof
  assume "HasSuffix s suf"
  then have "s = take (length s - length suf) s @ suf"
    by (metis HasSuffix_def append_take_drop_id)
  then show "\<exists>stem. s = stem @ suf" ..
next
  assume "\<exists>stem. s = stem @ suf"
  then show "HasSuffix s suf"
    by (auto simp: HasSuffix_def)
qed

lemma HasSuffix_ToLower:
  "HasSuffix (ToLower s) t \<longleftrightarrow> (\<exists>stem suf. s = stem @ suf \<and> ToLower suf = t)"
proof
  assume h: "HasSuffix (ToLower s) t"
  let ?n = "length s - length t"
  from h have "drop ?n (ToLower s) = t"
    by (simp add: HasSuffix_def ToLower_def)
  then have "ToLower (drop ?n s) = t"
    by (simp add: ToLower_def drop_map)
  moreover have "s = take ?n s @ drop ?n s"
    by simp
  ultimately show "\<exists>stem suf. s = stem @ suf \<and> ToLower suf = t"
    by blast
next
  assume "\<exists>stem suf. s = stem @ suf \<and> ToLower suf = t"
  then show "HasSuffix (ToLower s) t"
    by (auto simp: HasSuffix_iff ToLower_def)
qed

lemma Index_char: "0 \<le> Index s [c] \<longleftrightarrow> c \<in> set s"
  by (induction s) (auto simp: Let_def)

lemma Contains_char: "Contains s [c] \<longleftrightarrow> c \<in> set s"
  by (simp add: Contains_def Index_char)

section \<open>The format of an upload\<close>

lemma createZipFromDir_Sent:
  assumes "createZipFromDir e dir w = (r, w1)"
  shows "Sent w1 = Sent w \<and> (\<forall>f. r = Inr f \<longrightarrow> CreateTemp e = Inr f)"
  using assms
  by (auto simp: createZipFromDir_def split: sum.splits prod.splits option.splits)

lemma createZipFromFile_Sent:
  assumes "createZipFromFile e filePath w = (r, w1)"
  shows "Sent w1 = Sent w \<and> (\<forall>f. r = Inr f \<longrightarrow> CreateTemp e = Inr f)"
  using assms
  by (auto simp: createZipFromFile_def split: sum.splits prod.splits option.splits)

lemma Remove_Sent: "Sent (Remove name w) = Sent w"
  by (simp add: Remove_def)

lemma UploadArchive_body:
  assumes "UploadArchive e c sandboxID archivePath targetPath format w = (r, w')"
    and "Sent w' = Sent w @ [req]"
  shows "\<exists>f. Body req = Some (Multipart f [(''path'', targetPath),
                 (''format'', if format = [] then ''zip'' else format)]) \<and>
             FileName f = Base e archivePath"
  using assms
  by (auto simp: UploadArchive_def Let_def split: sum.splits option.splits if_splits)

lemma upload_format_values:
  "upload_format [] archivePath = ''tar.gz'' \<or> upload_format [] archivePath = ''zip''"
  by (simp add: upload_format_def)

lemma newFilesUploadCmd_body:
  assumes "newFilesUploadCmd e sandbox inputPath targetPath [] w = (r, w')"
    and "Sent w' = Sent w @ [req]"
  shows "\<exists>archivePath f.
           (archivePath = inputPath \<or> CreateTemp e = Inr archivePath) \<and>
           Body req = Some (Multipart f [(''path'', targetPath),
                              (''format'', upload_format [] archivePath)]) \<and>
           FileName f = Base e archivePath"
proof -
  let ?c = "NewAPIClient GetAPIEndpoint (GetAuthToken w)"
  have nonempty: "\<And>p. upload_format [] p \<noteq> []"
    by (simp add: upload_format_def)
  from assms have auth: "requireAuth w = None"
    by (auto simp: newFilesUploadCmd_def split: option.splits)
  from assms auth obtain isDir where st: "Stat e inputPath = Inr isDir"
    by (auto simp: newFilesUploadCmd_def split: sum.splits)
  consider (directory) "isDir"
    | (single) "\<not> isDir" "\<not> (HasSuffix (ToLower inputPath) ''.zip''
                             \<or> HasSuffix (ToLower inputPath) ''.tar.gz''
                             \<or> HasSuffix (ToLower inputPath) ''.tgz'')"
    | (packed) "\<not> isDir" "HasSuffix (ToLower inputPath) ''.zip''
                             \<or> HasSuffix (ToLower inputPath) ''.tar.gz''
                             \<or> HasSuffix (ToLower inputPath) ''.tgz''"
    by blast
  then show ?thesis
  proof cases
    case directory
    obtain z w1 where cz: "createZipFromDir e inputPath w = (z, w1)"
      by (cases "createZipFromDir e inputPath w")
    note sz = createZipFromDir_Sent [OF cz]
    from assms auth st directory cz sz obtain tmpZip where z: "z = Inr tmpZip"
      by (cases z) (auto simp: newFilesUploadCmd_def Let_def)
    obtain r2 w2 where up: "UploadArchive e ?c sandbox tmpZip targetPath
        (upload_format [] tmpZip) w1 = (r2, w2)"
      by (cases "UploadArchive e ?c sandbox tmpZip targetPath (upload_format [] tmpZip) w1")
    with assms(1) auth st directory cz z have "w' = Remove tmpZip w2"
      by (simp add: newFilesUploadCmd_def Let_def)
    with assms(2) createZipFromDir_Sent [OF cz] have "Sent w2 = Sent w1 @ [req]"
      by (simp add: Remove_Sent)
    from UploadArchive_body [OF up this] createZipFromDir_Sent [OF cz] z nonempty
    show ?thesis by auto
  next
    case single
    obtain z w1 where cz: "createZipFromFile e inputPath w = (z, w1)"
      by (cases "createZipFromFile e inputPath w")
    note sz = createZipFromFile_Sent [OF cz]
    from assms auth st single cz sz obtain tmpZip where z: "z = Inr tmpZip"
      by (cases z) (auto simp: newFilesUploadCmd_def Let_def)
    obtain r2 w2 where up: "UploadArchive e ?c sandbox tmpZip targetPath
        (upload_format [] tmpZip) w1 = (r2, w2)"
      by (cases "UploadArchive e ?c sandbox tmpZip targetPath (upload_format [] tmpZip) w1")
    with assms(1) auth st single cz z have "w' = Remove tmpZip w2"
      by (simp add: newFilesUploadCmd_def Let_def)
    with assms(2) createZipFromFile_Sent [OF cz] have "Sent w2 = Sent w1 @ [req]"
      by (simp add: Remove_Sent)
    from UploadArchive_body [OF up this] createZipFromFile_Sent [OF cz] z nonempty
    show ?thesis by auto
  next
    case packed
    with assms(1) auth st have up: "UploadArchive e ?c sandbox inputPath targetPath
        (upload_format [] inputPath) w = (r, w')"
      by (simp add: newFilesUploadCmd_def Let_def)
    from UploadArchive_body [OF up assms(2)] nonempty
    show ?thesis by auto
  qed
qed

text \<open>
  C6. With no \<open>--format\<close> flag, the format that \<open>files upload\<close> declares is \<open>tar.gz\<close>
  exactly when the archive path ends in a suffix that is \<open>.tar.gz\<close> or \<open>.tgz\<close> once
  lowered, and \<open>zip\<close> in every other case; and the request the command sends declares
  this format for its final archive path, which is the input path or the temporary
  archive built from it.
\<close>

theorem upload_format_detected:
  "(upload_format [] archivePath = ''tar.gz'' \<longleftrightarrow>
      (\<exists>stem suf. archivePath = stem @ suf \<and>
         (ToLower suf = ''.tar.gz'' \<or> ToLower suf = ''.tgz''))) \<and>
   (upload_format [] archivePath \<noteq> ''tar.gz'' \<longrightarrow> upload_format [] archivePath = ''zip'') \<and>
   (newFilesUploadCmd e sandbox inputPath targetPath [] w = (r, w') \<and> Sent w' = Sent w @ [req]
      \<longrightarrow> (\<exists>final f.
            (final = inputPath \<or> CreateTemp e = Inr final) \<and>
            Body req = Some (Multipart f [(''path'', targetPath),
                               (''format'', upload_format [] final)]) \<and>
            FileName f = Base e final))"
proof (intro conjI)
  have "upload_format [] archivePath = ''tar.gz'' \<longleftrightarrow>
      HasSuffix (ToLower archivePath) ''.tar.gz'' \<or> HasSuffix (ToLower archivePath) ''.tgz''"
    by (simp add: upload_format_def)
  then show "upload_format [] archivePath = ''tar.gz'' \<longleftrightarrow>
      (\<exists>stem suf. archivePath = stem @ suf \<and>
         (ToLower suf = ''.tar.gz'' \<or> ToLower suf = ''.tgz''))"
    unfolding HasSuffix_ToLower by blast
next
  show "upload_format [] archivePath \<noteq> ''tar.gz'' \<longrightarrow> upload_format [] archivePath = ''zip''"
    using upload_format_values [of archivePath] by blast
next
  show "newFilesUploadCmd e sandbox inputPath targetPath [] w = (r, w') \<and> Sent w' = Sent w @ [req]
      \<longrightarrow> (\<exists>final f.
            (final = inputPath \<or> CreateTemp e = Inr final) \<and>
            Body req = Some (Multipart f [(''path'', targetPath),
                               (''format'', upload_format [] final)]) \<and>
            FileName f = Base e final)"
    using newFilesUploadCmd_body [of e sandbox inputPath targetPath w r w' req] by blast
qed

theorem upload_format_detected_witness:
  "upload_format [] ''proj.TGZ'' = ''tar.gz'' \<and>
   upload_format [] ''proj.tar.gz.zip'' = ''zip'' \<and>
   map Body (Sent (snd (newFilesUploadCmd file_host ''box'' ''proj.TGZ'' ''/app'' [] world0)))
     = [Some (Multipart \<lparr>FormName = ''archive'', FileName = ''proj.TGZ'', FileData = Bytes ''bytes''\<rparr>
               [(''path'', ''/app''), (''format'', ''tar.gz'')])]"
proof -
  define rq where "rq = \<lparr>Method = ''POST'',
    URL = ''https://api.everywhere.dev/api/v1/sandbox/box/upload'',
    Header = [(''Content-Type'', ''multipart/form-data; boundary=b''),
              (''Authorization'', ''Bearer abc123'')],
    Body = Some (Multipart \<lparr>FormName = ''archive'', FileName = ''proj.TGZ'', FileData = Bytes ''bytes''\<rparr>
               [(''path'', ''/app''), (''format'', ''tar.gz'')])\<rparr>"
  define w1 where "w1 = world0\<lparr>Sent := [rq]\<rparr>"
  have lower: "ToLower ''.TGZ'' = ''.tgz''" "ToLower ''proj.TGZ'' = ''proj.tgz''"
    "ToLower ''proj.tar.gz.zip'' = ''proj.tar.gz.zip''"
    by (simp_all add: ToLower_def lower_char_def)
  have fmt: "upload_format [] ''proj.TGZ'' = ''tar.gz''"
    by (simp add: upload_format_def lower HasSuffix_def)
  have base: "Base file_host ''proj.TGZ'' = ''proj.TGZ''"
    by (simp add: Base_def IsPathSeparator_def file_host_def server_def)
  have a: "newFilesUploadCmd file_host ''box'' ''proj.TGZ'' ''/app'' [] world0 = (None, w1)"
  proof -
    have st: "Stat file_host ''proj.TGZ'' = Inr False" "NewRequest file_host = (\<lambda>method url. None)"
      "Open file_host ''proj.TGZ'' = Inr (Inr ''bytes'')"
      "FormDataContentType file_host = ''multipart/form-data; boundary=b''"
      "Do file_host = (\<lambda>req. Inr (response 200 ''ok''))"
      by (simp_all add: file_host_def server_def)
    show ?thesis
      by (simp add: newFilesUploadCmd_def requireAuth_def isAuthenticated_def lower HasSuffix_def
          UploadArchive_def os_Open_def fmt base w1_def rq_def st Let_def response_def
          world0_def NewAPIClient_def GetAPIEndpoint_def defaultAPIEndpoint_def GetAuthToken_def)
  qed
  have s: "Sent w1 = Sent world0 @ [rq]"
    by (simp add: w1_def world0_def)
  note t = upload_format_detected [of "''proj.TGZ''" file_host "''box''" "''proj.TGZ''" "''/app''"
      world0 None w1 rq]
  have "''proj.TGZ'' = ''proj'' @ ''.TGZ'' \<and> (ToLower ''.TGZ'' = ''.tar.gz'' \<or> ToLower ''.TGZ'' = ''.tgz'')"
    by (simp add: lower)
  with t have 1: "upload_format [] ''proj.TGZ'' = ''tar.gz''"
    by blast
  from t a s obtain final f where
    "Body rq = Some (Multipart f [(''path'', ''/app''), (''format'', upload_format [] final)])"
    by blast
  then have 3: "map Body (Sent w1) = [Some (Multipart \<lparr>FormName = ''archive'',
      FileName = ''proj.TGZ'', FileData = Bytes ''bytes''\<rparr> [(''path'', ''/app''), (''format'', ''tar.gz'')])]"
    by (simp add: w1_def rq_def)
  have 2: "upload_format [] ''proj.tar.gz.zip'' = ''zip''"
    by (simp add: upload_format_def lower HasSuffix_def)
  from a have "snd (newFilesUploadCmd file_host ''box'' ''proj.TGZ'' ''/app'' [] world0) = w1"
    by simp
  with 1 2 3 show ?thesis
    by simp
qed

section \<open>The run command\<close>

lemma run_bad:
  assumes "auth_token w \<noteq> []" and "Stat e input = Inl err"
    and "HasSuffix (ToLower input) ''.py'' \<or> Contains input [Separator e]"
  shows "newRunCmd e input sandbox w
           = (Some (Errorf (''file not found or is a directory: '' @ input)), w)"
  using assms by (simp add: newRunCmd_def requireAuth_def isAuthenticated_def Let_def)

lemma run_good:
  assumes "auth_token w \<noteq> []" and "Stat e input = Inl err"
    and "\<not> (HasSuffix (ToLower input) ''.py'' \<or> Contains input [Separator e])"
  shows "newRunCmd e input sandbox w
            = (case RunPython e (NewAPIClient GetAPIEndpoint (GetAuthToken w)) sandbox input [] w of
                 (Inl err', w') \<Rightarrow> (Some err', w') | (Inr output, w') \<Rightarrow> (None, w'))"
  using assms by (simp add: newRunCmd_def requireAuth_def isAuthenticated_def Let_def)

lemma RunPython_request:
  assumes "NewRequest e ''POST'' (BaseURL c @ ''/sandbox/run'') = None"
  shows "Sent (snd (RunPython e c sandboxName code [] w))
           = Sent w @ [\<lparr>Method = ''POST'', URL = BaseURL c @ ''/sandbox/run'',
                        Header = (''Content-Type'', ''application/json'') #
                          (if AuthToken c \<noteq> [] then [(''Authorization'', ''Bearer '' @ AuthToken c)]
                           else []),
                        Body = Some (MapString
                          (if sandboxName \<noteq> [] then [(''code'', code), (''id'', sandboxName)]
                           else [(''code'', code)]))\<rparr>]"
proof -
  define b where "b = Some (MapString
      (if sandboxName \<noteq> [] then [(''code'', code), (''id'', sandboxName)] else [(''code'', code)]))"
  have eq: "RunPython e c sandboxName code [] w
      = (case makeRequest e c ''POST'' ''/sandbox/run'' b w of
           (Inl err, w') \<Rightarrow> (Inl err, w')
         | (Inr resp, w') \<Rightarrow>
             if StatusCode resp \<noteq> 200 then
               (Inl (Errorf (''failed to run python: '' @ Body_resp resp)), w')
             else (case Decode_exec e (Body_resp resp) of
                     Inl err \<Rightarrow> (Inl err, w')
                   | Inr apiResp \<Rightarrow>
                       if Error (Data apiResp) \<noteq> [] then
                         (Inl (Errorf (''python execution failed: '' @ Error (Data apiResp))), w')
                       else (Inr (Output (Data apiResp)), w')))"
    by (simp add: RunPython_def b_def Let_def)
  obtain x w1 where mr: "makeRequest e c ''POST'' ''/sandbox/run'' b w = (x, w1)"
    by (cases "makeRequest e c ''POST'' ''/sandbox/run'' b w")
  then have "snd (RunPython e c sandboxName code [] w) = w1"
    unfolding eq by (simp split: sum.splits)
  moreover from mr assms have "Sent w1 = Sent w @ [\<lparr>Method = ''POST'', URL = BaseURL c @ ''/sandbox/run'',
                        Header = (''Content-Type'', ''application/json'') #
                          (if AuthToken c \<noteq> [] then [(''Authorization'', ''Bearer '' @ AuthToken c)]
                           else []),
                        Body = b\<rparr>]"
    by (auto simp: makeRequest_def Let_def)
  ultimately show ?thesis
    by (simp add: b_def)
qed

text \<open>
  C9, as the code has it. \<open>run\<close> checks the token before it looks at its argument.
  With a token configured, when \<open>os.Stat\<close> fails on the argument: if the argument has
  a suffix that is \<open>.py\<close> once lowered, or contains the path separator of the host, the
  command returns the error \<open>file not found or is a directory: \<close> followed by the
  argument and sends no request; otherwise it sends one request, to \<open>/sandbox/run\<close>,
  whose body has the argument as its \<open>code\<close>. So a request is sent only for an argument
  of the second kind.
\<close>

theorem run_inline_code:
  assumes "auth_token w \<noteq> []" and "Stat e input = Inl err"
  shows "((\<exists>stem suf. input = stem @ suf \<and> ToLower suf = ''.py'') \<or> Separator e \<in> set input
            \<longrightarrow> newRunCmd e input sandbox w
                  = (Some (Errorf (''file not found or is a directory: '' @ input)), w)) \<and>
         (\<not> ((\<exists>stem suf. input = stem @ suf \<and> ToLower suf = ''.py'') \<or> Separator e \<in> set input) \<and>
          NewRequest e ''POST'' (GetAPIEndpoint @ ''/sandbox/run'') = None
            \<longrightarrow> Sent (snd (newRunCmd e input sandbox w))
                  = Sent w @ [\<lparr>Method = ''POST'', URL = GetAPIEndpoint @ ''/sandbox/run'',
                               Header = [(''Content-Type'', ''application/json''),
                                         (''Authorization'', ''Bearer '' @ auth_token w)],
                               Body = Some (MapString
                                 (if sandbox \<noteq> [] then [(''code'', input), (''id'', sandbox)]
                                  else [(''code'', input)]))\<rparr>]) \<and>
         (Sent (snd (newRunCmd e input sandbox w)) \<noteq> Sent w
            \<longrightarrow> \<not> ((\<exists>stem suf. input = stem @ suf \<and> ToLower suf = ''.py'') \<or>
                   Separator e \<in> set input))"
proof -
  let ?bad = "(\<exists>stem suf. input = stem @ suf \<and> ToLower suf = ''.py'') \<or> Separator e \<in> set input"
  let ?req = "\<lparr>Method = ''POST'', URL = GetAPIEndpoint @ ''/sandbox/run'',
               Header = [(''Content-Type'', ''application/json''),
                         (''Authorization'', ''Bearer '' @ auth_token w)],
               Body = Some (MapString
                 (if sandbox \<noteq> [] then [(''code'', input), (''id'', sandbox)]
                  else [(''code'', input)]))\<rparr>"
  have bad: "HasSuffix (ToLower input) ''.py'' \<or> Contains input [Separator e] \<longleftrightarrow> ?bad"
    by (simp add: HasSuffix_ToLower Contains_char)
  have 1: "newRunCmd e input sandbox w
             = (Some (Errorf (''file not found or is a directory: '' @ input)), w)" if "?bad"
  proof -
    from that bad have "HasSuffix (ToLower input) ''.py'' \<or> Contains input [Separator e]"
      by blast
    with assms show ?thesis
      by (rule run_bad)
  qed
  have 2: "Sent (snd (newRunCmd e input sandbox w)) = Sent w @ [?req]"
    if "\<not> ?bad" and nr: "NewRequest e ''POST'' (GetAPIEndpoint @ ''/sandbox/run'') = None"
  proof -
    let ?c = "NewAPIClient GetAPIEndpoint (GetAuthToken w)"
    from that(1) bad
    have "\<not> (HasSuffix (ToLower input) ''.py'' \<or> Contains input [Separator e])"
      by blast
    with assms have "newRunCmd e input sandbox w
            = (case RunPython e ?c sandbox input [] w of
                 (Inl err', w') \<Rightarrow> (Some err', w') | (Inr output, w') \<Rightarrow> (None, w'))"
      by (rule run_good)
    then have "snd (newRunCmd e input sandbox w) = snd (RunPython e ?c sandbox input [] w)"
      by (simp split: prod.splits sum.splits)
    moreover from nr have "NewRequest e ''POST'' (BaseURL ?c @ ''/sandbox/run'') = None"
      by (simp add: NewAPIClient_def)
    then have "Sent (snd (RunPython e ?c sandbox input [] w)) = Sent w @ [?req]"
      using assms(1) by (simp add: RunPython_request) (simp add: NewAPIClient_def GetAuthToken_def)
    ultimately show ?thesis
      by simp
  qed
  have 3: "\<not> ?bad" if "Sent (snd (newRunCmd e input sandbox w)) \<noteq> Sent w"
  proof
    assume "?bad"
    then have "snd (newRunCmd e input sandbox w) = w"
      by (simp only: 1 snd_conv)
    with that show False
      by simp
  qed
  from 1 2 3 show ?thesis
    by blast
qed

theorem run_inline_code_witness:
  "newRunCmd (server (response 200 ''{}'')) ''missing.PY'' ''auto'' world0
     = (Some (Errorf ''file not found or is a directory: missing.PY''), world0) \<and>
   newRunCmd (server (response 200 ''{}'')) ''tools/x'' ''auto'' world0
     = (Some (Errorf ''file not found or is a directory: tools/x''), world0) \<and>
   map Body (Sent (snd (newRunCmd (server (response 200 ''{}'')) ''print(1)'' ''auto'' world0)))
     = [Some (MapString [(''code'', ''print(1)''), (''id'', ''auto'')])]"
proof -
  let ?e = "server (response 200 ''{}'')"
  have tok: "auth_token world0 \<noteq> []"
    by (simp add: world0_def)
  have st: "\<And>input. Stat ?e input = Inl (Underlying ''no such file or directory'')"
    and sep: "Separator ?e = CHR ''/''"
    and nr: "NewRequest ?e ''POST'' (GetAPIEndpoint @ ''/sandbox/run'') = None"
    by (simp_all add: server_def)
  have b1: "''missing.PY'' = ''missing'' @ ''.PY'' \<and> ToLower ''.PY'' = ''.py''"
    by (simp add: ToLower_def lower_char_def)
  have b2: "Separator ?e \<in> set ''tools/x''"
    by (simp add: sep)
  have b3: "\<not> ((\<exists>stem suf. ''print(1)'' = stem @ suf \<and> ToLower suf = ''.py'') \<or>
                Separator ?e \<in> set ''print(1)'')"
  proof -
    have "\<not> HasSuffix (ToLower ''print(1)'') ''.py''"
      by (simp add: HasSuffix_def ToLower_def lower_char_def)
    then show ?thesis
      by (simp add: HasSuffix_ToLower sep)
  qed
  from run_inline_code [OF tok st, of "''missing.PY''" "''auto''"] b1
  have 1: "newRunCmd ?e ''missing.PY'' ''auto'' world0
     = (Some (Errorf (''file not found or is a directory: '' @ ''missing.PY'')), world0)"
    by blast
  from run_inline_code [OF tok st, of "''tools/x''" "''auto''"] b2
  have 2: "newRunCmd ?e ''tools/x'' ''auto'' world0
     = (Some (Errorf (''file not found or is a directory: '' @ ''tools/x'')), world0)"
    by blast
  from run_inline_code [OF tok st, of "''print(1)''" "''auto''"] b3 nr
  have 3: "Sent (snd (newRunCmd ?e ''print(1)'' ''auto'' world0))
     = Sent world0 @ [\<lparr>Method = ''POST'', URL = GetAPIEndpoint @ ''/sandbox/run'',
                        Header = [(''Content-Type'', ''application/json''),
                                  (''Authorization'', ''Bearer '' @ auth_token world0)],
                        Body = Some (MapString
                          (if ''auto'' \<noteq> [] then [(''code'', ''print(1)''), (''id'', ''auto'')]
                           else [(''code'', ''print(1)'')]))\<rparr>]"
    by blast
  from 1 2 3 show ?thesis
    by (simp add: world0_def)
qed

text \<open>
  C9 as stated fails when no token is configured: for the argument \<open>missing.PY\<close>, on
  which \<open>os.Stat\<close> fails, \<open>run\<close> returns the error of the token check and not the
  file-not-found error.
\<close>

theorem run_inline_code_counterexample:
  "Stat (server (response 200 ''{}'')) ''missing.PY''
     = Inl (Underlying ''no such file or directory'') \<and>
   newRunCmd (server (response 200 ''{}'')) ''missing.PY'' ''auto'' world_no_token
     = (Some (Errorf (''not authenticated. Please run '' @ [CHR 0x27] @ ''everywhere login''
                      @ [CHR 0x27] @ '' first'')), world_no_token)"
  by (simp add: newRunCmd_def requireAuth_def isAuthenticated_def world_no_token_def server_def)

section \<open>The token check of the commands\<close>

lemma requireAuth_iff:
  "requireAuth w = (if auth_token w = []
     then Some (Errorf (''not authenticated. Please run '' @ [CHR 0x27] @ ''everywhere login''
                        @ [CHR 0x27] @ '' first''))
     else None)"
  by (simp add: requireAuth_def isAuthenticated_def)

text \<open>
  C5, as the code has it. \<open>requireAuth\<close> returns its error exactly when the configured
  token is empty, and nothing for any other token. Every command but \<open>login\<close>,
  \<open>logout\<close> and \<open>config show\<close> makes this check first: with an empty token it returns
  that error and leaves the world as it was, so no request is sent. \<open>logout\<close> and
  \<open>config show\<close> do not make the check; they send no request with any token.
\<close>

theorem requireAuth_first:
  "(requireAuth w \<noteq> None \<longleftrightarrow> auth_token w = []) \<and>
   (auth_token w = [] \<longrightarrow>
      requireAuth w = Some (Errorf (''not authenticated. Please run '' @ [CHR 0x27]
                                    @ ''everywhere login'' @ [CHR 0x27] @ '' first''))) \<and>
   ((\<forall>args token. cmd \<noteq> Login args token) \<and> cmd \<noteq> Logout \<and> cmd \<noteq> ConfigShow \<and>
    auth_token w = []
      \<longrightarrow> RunE e cmd w = (requireAuth w, w)) \<and>
   (cmd = Logout \<or> cmd = ConfigShow \<longrightarrow> Sent (snd (RunE e cmd w)) = Sent w)"
proof (intro conjI impI)
  show "requireAuth w \<noteq> None \<longleftrightarrow> auth_token w = []"
    by (simp add: requireAuth_iff)
next
  assume "auth_token w = []"
  then show "requireAuth w = Some (Errorf (''not authenticated. Please run '' @ [CHR 0x27]
                                    @ ''everywhere login'' @ [CHR 0x27] @ '' first''))"
    by (simp add: requireAuth_iff)
next
  assume a: "(\<forall>args token. cmd \<noteq> Login args token) \<and> cmd \<noteq> Logout \<and> cmd \<noteq> ConfigShow \<and>
    auth_token w = []"
  then obtain err where r: "requireAuth w = Some err"
    by (simp add: requireAuth_iff)
  from a show "RunE e cmd w = (requireAuth w, w)"
    by (cases cmd)
       (simp_all add: r newSandboxListCmd_def newSandboxCreateCmd_def newSandboxDeleteCmd_def
          newSandboxStartCmd_def newSandboxStopCmd_def newFilesListCmd_def
          newFilesDownloadCmd_def newFilesUpdateCmd_def newFilesUploadCmd_def newExecCmd_def
          newRunCmd_def)
next
  assume "cmd = Logout \<or> cmd = ConfigShow"
  then show "Sent (snd (RunE e cmd w)) = Sent w"
    by (auto simp: newLogoutCmd_def ClearAuth_def newConfigCmd_show_def Let_def)
qed

theorem requireAuth_first_witness:
  "requireAuth world_no_token \<noteq> None \<and>
   RunE (server (response 200 ''{}'')) SandboxesList world_no_token
     = (Some (Errorf (''not authenticated. Please run '' @ [CHR 0x27] @ ''everywhere login''
                      @ [CHR 0x27] @ '' first'')), world_no_token) \<and>
   Sent (snd (RunE (server (response 200 ''{}'')) Logout world0)) = []"
proof -
  note t = requireAuth_first [of world_no_token SandboxesList "server (response 200 ''{}'')"]
  have n: "auth_token world_no_token = []"
    by (simp add: world_no_token_def)
  have c: "(\<forall>args token. SandboxesList \<noteq> Login args token) \<and> SandboxesList \<noteq> Logout \<and>
    SandboxesList \<noteq> ConfigShow"
    by simp
  from t n have 1: "requireAuth world_no_token \<noteq> None"
    by blast
  from t n have 2: "requireAuth world_no_token = Some (Errorf (''not authenticated. Please run ''
      @ [CHR 0x27] @ ''everywhere login'' @ [CHR 0x27] @ '' first''))"
    by blast
  from t n c have 3: "RunE (server (response 200 ''{}'')) SandboxesList world_no_token
      = (requireAuth world_no_token, world_no_token)"
    by blast
  from requireAuth_first [of world0 Logout "server (response 200 ''{}'')"]
  have 4: "Sent (snd (RunE (server (response 200 ''{}'')) Logout world0)) = Sent world0"
    by blast
  from 1 2 3 4 show ?thesis
    by (simp add: world0_def)
qed

text \<open>
  C5 as stated fails for \<open>logout\<close>: with no token configured the check returns its
  error, but \<open>logout\<close> returns no error.
\<close>

theorem requireAuth_first_counterexample:
  "requireAuth world_no_token \<noteq> None \<and>
   fst (RunE (server (response 200 ''{}'')) Logout world_no_token) = None"
  by (simp add: requireAuth_iff world_no_token_def newLogoutCmd_def ClearAuth_def saveConfig_def
        server_def Let_def)

section \<open>The archive of a single file\<close>






end
